theory Spec2Isabelle
  imports Main "HOL-Library.Word"
begin

unbundle bit_operations_syntax

section \<open>The File core (libmbcommon/src/file.cpp)\<close>

subsection \<open>Status values, states and error codes (mbcommon/file.h)\<close>

text \<open>
  \<^verbatim>\<open>enum class FileStatus\<close> with its underlying values. The code compares statuses with
  \<^verbatim>\<open><\<close> and \<^verbatim>\<open><=\<close>, which on an enum class compare the underlying integers, so the
  order of the model is the order of \<open>FileStatus_value\<close>.
\<close>

datatype FileStatus = OK | RETRY | UNSUPPORTED | WARN | FAILED | FATAL

fun FileStatus_value :: "FileStatus \<Rightarrow> int" where
  "FileStatus_value FileStatus.OK = 0"
| "FileStatus_value FileStatus.RETRY = -1"
| "FileStatus_value FileStatus.UNSUPPORTED = -2"
| "FileStatus_value FileStatus.WARN = -3"
| "FileStatus_value FileStatus.FAILED = -4"
| "FileStatus_value FileStatus.FATAL = -5"

instantiation FileStatus :: linorder
begin

definition less_eq_FileStatus :: "FileStatus \<Rightarrow> FileStatus \<Rightarrow> bool" where
  "less_eq_FileStatus a b = (FileStatus_value a \<le> FileStatus_value b)"

definition less_FileStatus :: "FileStatus \<Rightarrow> FileStatus \<Rightarrow> bool" where
  "less_FileStatus a b = (FileStatus_value a < FileStatus_value b)"

instance
proof
  fix x y z :: FileStatus
  show "(x < y) = (x \<le> y \<and> \<not> y \<le> x)"
    by (auto simp: less_eq_FileStatus_def less_FileStatus_def)
  show "x \<le> x"
    by (simp add: less_eq_FileStatus_def)
  show "x \<le> y \<Longrightarrow> y \<le> z \<Longrightarrow> x \<le> z"
    by (simp add: less_eq_FileStatus_def)
  show "x \<le> y \<Longrightarrow> y \<le> x \<Longrightarrow> x = y"
    by (cases x; cases y) (simp_all add: less_eq_FileStatus_def)
  show "x \<le> y \<or> y \<le> x"
    by (auto simp: less_eq_FileStatus_def)
qed

end

text \<open>
  Modelled from the spec: \<^verbatim>\<open>FileState\<close> is declared in \<^verbatim>\<open>mbcommon/file_p.h\<close>, which is not
  among the sources. The spec gives the four states NEW, OPENED, CLOSED and FATAL, of which
  exactly one holds at a time. The code tests a state against a mask of states
  (\<^verbatim>\<open>priv->state & (STATES)\<close>); with one flag per state that test is membership of the
  state in the set of states the mask names.
\<close>

datatype FileState = NEW | OPENED | CLOSED | FATAL

text \<open>\<^verbatim>\<open>namespace FileError\<close>: the non-negative error codes.\<close>

definition FileError_NONE :: int where "FileError_NONE = 0"
definition FileError_INVALID_ARGUMENT :: int where "FileError_INVALID_ARGUMENT = 1"
definition FileError_UNSUPPORTED :: int where "FileError_UNSUPPORTED = 2"
definition FileError_PROGRAMMER_ERROR :: int where "FileError_PROGRAMMER_ERROR = 3"
definition FileError_INTERNAL_ERROR :: int where "FileError_INTERNAL_ERROR = 4"

subsection \<open>Callbacks and the private data of a handle\<close>

text \<open>
  Pointers that the core only tests against null and passes on are addresses; the null
  pointer is address 0.
\<close>

type_synonym ptr = nat

definition nullptr :: ptr where "nullptr = 0"

text \<open>
  A callback is a C function pointer \<^verbatim>\<open>FileStatus (*)(File &file, void *userdata, ...)\<close>.
  It runs arbitrary code, so the model makes its effects explicit. A callback receives
  \<^item> the object behind the \<^verbatim>\<open>userdata\<close> pointer (type \<open>'u\<close>) and returns it as updated
    through the pointer,
  \<^item> the rest of the program state it may read and write (type \<open>'w\<close>: operating system,
    \<^verbatim>\<open>errno\<close>, the caller's buffers, which the core passes as addresses),
  and returns its status together with the last \<^verbatim>\<open>file.set_error(code, message)\<close> it made
  on the handle, if any. All four backends use the \<^verbatim>\<open>File &\<close> argument for
  \<^verbatim>\<open>set_error\<close> only; a callback that re-enters other methods of the handle is outside
  this model.
\<close>

type_synonym ('u, 'w) cb_result = "FileStatus \<times> 'u \<times> 'w \<times> (int \<times> string) option"

type_synonym ('u, 'w) OpenCb = "'u \<Rightarrow> 'w \<Rightarrow> ('u, 'w) cb_result"
type_synonym ('u, 'w) CloseCb = "'u \<Rightarrow> 'w \<Rightarrow> ('u, 'w) cb_result"
type_synonym ('u, 'w, 's) ReadCb = "'u \<Rightarrow> ptr \<Rightarrow> 's \<Rightarrow> ptr \<Rightarrow> 'w \<Rightarrow> ('u, 'w) cb_result"
type_synonym ('u, 'w, 's) WriteCb = "'u \<Rightarrow> ptr \<Rightarrow> 's \<Rightarrow> ptr \<Rightarrow> 'w \<Rightarrow> ('u, 'w) cb_result"

text \<open>
  The seek callback stores the new offset through its last argument, which the core
  always points at a local variable; the model returns the stored value.
\<close>

type_synonym ('u, 'w) SeekCb =
  "'u \<Rightarrow> 64 word \<Rightarrow> 32 word \<Rightarrow> 'w \<Rightarrow> ('u, 'w) cb_result \<times> 64 word"
type_synonym ('u, 'w) TruncateCb = "'u \<Rightarrow> 64 word \<Rightarrow> 'w \<Rightarrow> ('u, 'w) cb_result"

text \<open>The callbacks, in the order of their invocation, are recorded in a log.\<close>

datatype cb_event =
  Open_called | Close_called | Read_called | Write_called | Seek_called | Truncate_called

text \<open>
  Modelled from the spec: \<^verbatim>\<open>FilePrivate\<close> is declared in \<^verbatim>\<open>mbcommon/file_p.h\<close>, which is
  not among the sources. Its fields are the ones file.cpp reads and writes (and the spec
  lists): the state, six nullable callback slots, the user data pointer, the last error
  code and message. \<open>cb_userdata\<close> holds the object the pointer refers to. \<open>cb_log\<close> is
  not a field of the source: it records every callback the core invokes, so that
  statements about how often a callback runs can be made. The type \<open>'s\<close> is \<^verbatim>\<open>size_t\<close>.
\<close>

record ('u, 'w, 's) FilePrivate =
  state :: FileState
  open_cb :: "('u, 'w) OpenCb option"
  close_cb :: "('u, 'w) CloseCb option"
  read_cb :: "('u, 'w, 's) ReadCb option"
  write_cb :: "('u, 'w, 's) WriteCb option"
  seek_cb :: "('u, 'w) SeekCb option"
  truncate_cb :: "('u, 'w) TruncateCb option"
  cb_userdata :: 'u
  error_code :: int
  error_string :: string
  cb_log :: "cb_event list"

text \<open>
  \<^verbatim>\<open>File::File()\<close>: state NEW. The fields' initial values are those the test
  \<^verbatim>\<open>CheckInitialValues\<close> asserts; the user data pointer starts null, \<open>u0\<close> stands for that.
\<close>

definition File_new :: "'u \<Rightarrow> ('u, 'w, 's) FilePrivate" where
  "File_new u0 =
     \<lparr>state = FileState.NEW, open_cb = None, close_cb = None, read_cb = None,
      write_cb = None, seek_cb = None, truncate_cb = None, cb_userdata = u0,
      error_code = FileError_NONE, error_string = [], cb_log = []\<rparr>"

text \<open>
  \<^verbatim>\<open>File::set_error\<close> / \<^verbatim>\<open>File::set_error_v\<close>: stores the code and the formatted message.
  The printf-style formatter \<^verbatim>\<open>mb::format_v\<close> is an external collaborator; its result is
  the argument \<open>formatted\<close>, \<open>None\<close> when it fails (the code is stored all the same and the
  status is FAILED).
\<close>

definition set_error_v ::
  "int \<Rightarrow> string option \<Rightarrow> ('u, 'w, 's) FilePrivate \<Rightarrow> FileStatus \<times> ('u, 'w, 's) FilePrivate" where
  "set_error_v code formatted f =
     (case formatted of
        Some m \<Rightarrow> (FileStatus.OK, f\<lparr>error_code := code, error_string := m\<rparr>)
      | None \<Rightarrow> (FileStatus.FAILED, f\<lparr>error_code := code\<rparr>))"

definition set_error :: "int \<Rightarrow> string \<Rightarrow> ('u, 'w, 's) FilePrivate \<Rightarrow> ('u, 'w, 's) FilePrivate" where
  "set_error code msg f = snd (set_error_v code (Some msg) f)"

text \<open>
  The macro \<^verbatim>\<open>ENSURE_STATE(STATES)\<close>: when the state is not one of \<open>STATES\<close> it sets
  PROGRAMMER_ERROR, forces the state to FATAL and makes the calling method return
  \<^verbatim>\<open>FileStatus::FATAL\<close>. \<open>ENSURE_STATE_fail\<close> is the handle after the failing branch;
  \<open>func\<close> is \<^verbatim>\<open>__func__\<close>. Of the message the model keeps the function name and the
  fixed text, not the two state numbers printed after it.
\<close>

definition ENSURE_STATE_fail ::
  "string \<Rightarrow> ('u, 'w, 's) FilePrivate \<Rightarrow> ('u, 'w, 's) FilePrivate" where
  "ENSURE_STATE_fail func f =
     (set_error FileError_PROGRAMMER_ERROR (func @ '': Invalid state'') f)
       \<lparr>state := FileState.FATAL\<rparr>"

text \<open>
  Invoking a callback on the handle: its result updates the user data object, the
  error fields when the callback called \<^verbatim>\<open>set_error\<close>, and the log.
\<close>

definition invoke ::
  "cb_event \<Rightarrow> ('u, 'w) cb_result \<Rightarrow> ('u, 'w, 's) FilePrivate
     \<Rightarrow> FileStatus \<times> ('u, 'w, 's) FilePrivate \<times> 'w" where
  "invoke ev r f =
     (case r of (ret, u', w', e) \<Rightarrow>
        (ret,
         (case e of None \<Rightarrow> f | Some (code, msg) \<Rightarrow> set_error code msg f)
           \<lparr>cb_userdata := u', cb_log := cb_log f @ [ev]\<rparr>,
         w'))"

subsection \<open>The setters\<close>

definition File_set_open_callback ::
  "('u, 'w) OpenCb option \<Rightarrow> ('u, 'w, 's) FilePrivate \<Rightarrow> FileStatus \<times> ('u, 'w, 's) FilePrivate" where
  "File_set_open_callback cb f =
     (if state f \<notin> {FileState.NEW}
      then (FileStatus.FATAL, ENSURE_STATE_fail ''set_open_callback'' f)
      else (FileStatus.OK, f\<lparr>open_cb := cb\<rparr>))"

definition File_set_close_callback ::
  "('u, 'w) CloseCb option \<Rightarrow> ('u, 'w, 's) FilePrivate \<Rightarrow> FileStatus \<times> ('u, 'w, 's) FilePrivate" where
  "File_set_close_callback cb f =
     (if state f \<notin> {FileState.NEW}
      then (FileStatus.FATAL, ENSURE_STATE_fail ''set_close_callback'' f)
      else (FileStatus.OK, f\<lparr>close_cb := cb\<rparr>))"

definition File_set_read_callback ::
  "('u, 'w, 's) ReadCb option \<Rightarrow> ('u, 'w, 's) FilePrivate \<Rightarrow> FileStatus \<times> ('u, 'w, 's) FilePrivate" where
  "File_set_read_callback cb f =
     (if state f \<notin> {FileState.NEW}
      then (FileStatus.FATAL, ENSURE_STATE_fail ''set_read_callback'' f)
      else (FileStatus.OK, f\<lparr>read_cb := cb\<rparr>))"

definition File_set_write_callback ::
  "('u, 'w, 's) WriteCb option \<Rightarrow> ('u, 'w, 's) FilePrivate \<Rightarrow> FileStatus \<times> ('u, 'w, 's) FilePrivate" where
  "File_set_write_callback cb f =
     (if state f \<notin> {FileState.NEW}
      then (FileStatus.FATAL, ENSURE_STATE_fail ''set_write_callback'' f)
      else (FileStatus.OK, f\<lparr>write_cb := cb\<rparr>))"

definition File_set_seek_callback ::
  "('u, 'w) SeekCb option \<Rightarrow> ('u, 'w, 's) FilePrivate \<Rightarrow> FileStatus \<times> ('u, 'w, 's) FilePrivate" where
  "File_set_seek_callback cb f =
     (if state f \<notin> {FileState.NEW}
      then (FileStatus.FATAL, ENSURE_STATE_fail ''set_seek_callback'' f)
      else (FileStatus.OK, f\<lparr>seek_cb := cb\<rparr>))"

definition File_set_truncate_callback ::
  "('u, 'w) TruncateCb option \<Rightarrow> ('u, 'w, 's) FilePrivate \<Rightarrow> FileStatus \<times> ('u, 'w, 's) FilePrivate" where
  "File_set_truncate_callback cb f =
     (if state f \<notin> {FileState.NEW}
      then (FileStatus.FATAL, ENSURE_STATE_fail ''set_truncate_callback'' f)
      else (FileStatus.OK, f\<lparr>truncate_cb := cb\<rparr>))"

definition File_set_callback_data ::
  "'u \<Rightarrow> ('u, 'w, 's) FilePrivate \<Rightarrow> FileStatus \<times> ('u, 'w, 's) FilePrivate" where
  "File_set_callback_data userdata f =
     (if state f \<notin> {FileState.NEW}
      then (FileStatus.FATAL, ENSURE_STATE_fail ''set_callback_data'' f)
      else (FileStatus.OK, f\<lparr>cb_userdata := userdata\<rparr>))"

subsection \<open>open and close, the destructor\<close>

text \<open>
  \<^verbatim>\<open>File::open\<close>. After the state check: run the open callback if one is registered
  (\<open>ret\<close> stays OK otherwise); OK moves to OPENED, a result \<^verbatim>\<open><= FileStatus::FATAL\<close> moves
  to FATAL, any other result leaves the state as it is; when the result is not OK and a
  close callback is registered, it is run and its result dropped.
\<close>

definition File_open ::
  "('u, 'w, 's) FilePrivate \<Rightarrow> 'w \<Rightarrow> FileStatus \<times> ('u, 'w, 's) FilePrivate \<times> 'w" where
  "File_open f w =
     (if state f \<notin> {FileState.NEW}
      then (FileStatus.FATAL, ENSURE_STATE_fail ''open'' f, w)
      else
        (case (case open_cb f of
                 Some cb \<Rightarrow> invoke Open_called (cb (cb_userdata f) w) f
               | None \<Rightarrow> (FileStatus.OK, f, w)) of
           (ret, f1, w1) \<Rightarrow>
             (let f2 = (if ret = FileStatus.OK then f1\<lparr>state := FileState.OPENED\<rparr>
                        else if ret \<le> FileStatus.FATAL then f1\<lparr>state := FileState.FATAL\<rparr>
                        else f1)
              in if ret \<noteq> FileStatus.OK
                 then (case close_cb f2 of
                         Some cb \<Rightarrow>
                           (case invoke Close_called (cb (cb_userdata f2) w1) f2 of
                              (ret_close, f3, w3) \<Rightarrow> (ret, f3, w3))
                       | None \<Rightarrow> (ret, f2, w1))
                 else (ret, f2, w1))))"

text \<open>
  \<^verbatim>\<open>File::close\<close>. The close callback runs only when the state is neither CLOSED nor
  NEW; the state is set to CLOSED on every path.
\<close>

definition File_close ::
  "('u, 'w, 's) FilePrivate \<Rightarrow> 'w \<Rightarrow> FileStatus \<times> ('u, 'w, 's) FilePrivate \<times> 'w" where
  "File_close f w =
     (case (if state f \<notin> {FileState.CLOSED, FileState.NEW}
            then (case close_cb f of
                    Some cb \<Rightarrow> invoke Close_called (cb (cb_userdata f) w) f
                  | None \<Rightarrow> (FileStatus.OK, f, w))
            else (FileStatus.OK, f, w)) of
        (ret, f1, w1) \<Rightarrow> (ret, f1\<lparr>state := FileState.CLOSED\<rparr>, w1))"

text \<open>\<^verbatim>\<open>File::~File\<close>: closes the handle unless it is CLOSED; the result is dropped.\<close>

definition File_destroy ::
  "('u, 'w, 's) FilePrivate \<Rightarrow> 'w \<Rightarrow> ('u, 'w, 's) FilePrivate \<times> 'w" where
  "File_destroy f w =
     (if state f \<noteq> FileState.CLOSED then snd (File_close f w) else (f, w))"

subsection \<open>read, write, seek, truncate\<close>

text \<open>
  \<^verbatim>\<open>File::read\<close> and \<^verbatim>\<open>File::write\<close>: \<open>ret\<close> starts as UNSUPPORTED; a null count pointer
  sets PROGRAMMER_ERROR and FATAL; otherwise the callback runs if registered; without a
  callback the error is UNSUPPORTED. A result \<^verbatim>\<open><= FileStatus::FATAL\<close> forces the state FATAL.
\<close>

definition File_read ::
  "ptr \<Rightarrow> 's \<Rightarrow> ptr \<Rightarrow> ('u, 'w, 's) FilePrivate \<Rightarrow> 'w
     \<Rightarrow> FileStatus \<times> ('u, 'w, 's) FilePrivate \<times> 'w" where
  "File_read buf size' bytes_read f w =
     (if state f \<notin> {FileState.OPENED}
      then (FileStatus.FATAL, ENSURE_STATE_fail ''read'' f, w)
      else
        (case (if bytes_read = nullptr
               then (FileStatus.FATAL,
                     set_error FileError_PROGRAMMER_ERROR ''read: bytes_read is NULL'' f, w)
               else (case read_cb f of
                       Some cb \<Rightarrow>
                         invoke Read_called (cb (cb_userdata f) buf size' bytes_read w) f
                     | None \<Rightarrow>
                         (FileStatus.UNSUPPORTED,
                          set_error FileError_UNSUPPORTED ''read: No read callback registered'' f,
                          w))) of
           (ret, f1, w1) \<Rightarrow>
             (ret, if ret \<le> FileStatus.FATAL then f1\<lparr>state := FileState.FATAL\<rparr> else f1, w1)))"

definition File_write ::
  "ptr \<Rightarrow> 's \<Rightarrow> ptr \<Rightarrow> ('u, 'w, 's) FilePrivate \<Rightarrow> 'w
     \<Rightarrow> FileStatus \<times> ('u, 'w, 's) FilePrivate \<times> 'w" where
  "File_write buf size' bytes_written f w =
     (if state f \<notin> {FileState.OPENED}
      then (FileStatus.FATAL, ENSURE_STATE_fail ''write'' f, w)
      else
        (case (if bytes_written = nullptr
               then (FileStatus.FATAL,
                     set_error FileError_PROGRAMMER_ERROR ''write: bytes_written is NULL'' f, w)
               else (case write_cb f of
                       Some cb \<Rightarrow>
                         invoke Write_called (cb (cb_userdata f) buf size' bytes_written w) f
                     | None \<Rightarrow>
                         (FileStatus.UNSUPPORTED,
                          set_error FileError_UNSUPPORTED ''write: No write callback registered'' f,
                          w))) of
           (ret, f1, w1) \<Rightarrow>
             (ret, if ret \<le> FileStatus.FATAL then f1\<lparr>state := FileState.FATAL\<rparr> else f1, w1)))"

text \<open>
  \<^verbatim>\<open>File::seek\<close>: the callback stores the offset in a local; on OK it is copied to
  \<^verbatim>\<open>*new_offset\<close> when that pointer is not null. The last component of the result is the
  value written to \<^verbatim>\<open>*new_offset\<close>, \<open>None\<close> when nothing is written.
\<close>

definition File_seek ::
  "64 word \<Rightarrow> 32 word \<Rightarrow> ptr \<Rightarrow> ('u, 'w, 's) FilePrivate \<Rightarrow> 'w
     \<Rightarrow> FileStatus \<times> ('u, 'w, 's) FilePrivate \<times> 'w \<times> 64 word option" where
  "File_seek offset whence new_offset f w =
     (if state f \<notin> {FileState.OPENED}
      then (FileStatus.FATAL, ENSURE_STATE_fail ''seek'' f, w, None)
      else
        (case (case seek_cb f of
                 Some cb \<Rightarrow>
                   (case cb (cb_userdata f) offset whence w of
                      (r, new_offset_temp) \<Rightarrow> (invoke Seek_called r f, Some new_offset_temp))
               | None \<Rightarrow>
                   ((FileStatus.UNSUPPORTED,
                     set_error FileError_UNSUPPORTED ''seek: No seek callback registered'' f,
                     w), None)) of
           ((ret, f1, w1), new_offset_temp) \<Rightarrow>
             if ret = FileStatus.OK
             then (ret, f1, w1, if new_offset \<noteq> nullptr then new_offset_temp else None)
             else if ret \<le> FileStatus.FATAL
             then (ret, f1\<lparr>state := FileState.FATAL\<rparr>, w1, None)
             else (ret, f1, w1, None)))"

definition File_truncate ::
  "64 word \<Rightarrow> ('u, 'w, 's) FilePrivate \<Rightarrow> 'w
     \<Rightarrow> FileStatus \<times> ('u, 'w, 's) FilePrivate \<times> 'w" where
  "File_truncate size' f w =
     (if state f \<notin> {FileState.OPENED}
      then (FileStatus.FATAL, ENSURE_STATE_fail ''truncate'' f, w)
      else
        (case (case truncate_cb f of
                 Some cb \<Rightarrow> invoke Truncate_called (cb (cb_userdata f) size' w) f
               | None \<Rightarrow>
                   (FileStatus.UNSUPPORTED,
                    set_error FileError_UNSUPPORTED
                      ''truncate: No truncate callback registered'' f,
                    w)) of
           (ret, f1, w1) \<Rightarrow>
             (ret, if ret \<le> FileStatus.FATAL then f1\<lparr>state := FileState.FATAL\<rparr> else f1, w1)))"

subsection \<open>Calls in sequence and the lifetime of a handle\<close>

text \<open>
  A call of one of the seven setters, \<open>apply_setter\<close> to make it, and \<open>store\<close>, the plain
  assignment to the slot that a successful setter performs.
\<close>

datatype ('u, 'w, 's) setter =
  Set_open_callback "('u, 'w) OpenCb option"
| Set_close_callback "('u, 'w) CloseCb option"
| Set_read_callback "('u, 'w, 's) ReadCb option"
| Set_write_callback "('u, 'w, 's) WriteCb option"
| Set_seek_callback "('u, 'w) SeekCb option"
| Set_truncate_callback "('u, 'w) TruncateCb option"
| Set_callback_data 'u

fun apply_setter ::
  "('u, 'w, 's) setter \<Rightarrow> ('u, 'w, 's) FilePrivate \<Rightarrow> FileStatus \<times> ('u, 'w, 's) FilePrivate" where
  "apply_setter (Set_open_callback cb) f = File_set_open_callback cb f"
| "apply_setter (Set_close_callback cb) f = File_set_close_callback cb f"
| "apply_setter (Set_read_callback cb) f = File_set_read_callback cb f"
| "apply_setter (Set_write_callback cb) f = File_set_write_callback cb f"
| "apply_setter (Set_seek_callback cb) f = File_set_seek_callback cb f"
| "apply_setter (Set_truncate_callback cb) f = File_set_truncate_callback cb f"
| "apply_setter (Set_callback_data u) f = File_set_callback_data u f"

fun store :: "('u, 'w, 's) setter \<Rightarrow> ('u, 'w, 's) FilePrivate \<Rightarrow> ('u, 'w, 's) FilePrivate" where
  "store (Set_open_callback cb) f = f\<lparr>open_cb := cb\<rparr>"
| "store (Set_close_callback cb) f = f\<lparr>close_cb := cb\<rparr>"
| "store (Set_read_callback cb) f = f\<lparr>read_cb := cb\<rparr>"
| "store (Set_write_callback cb) f = f\<lparr>write_cb := cb\<rparr>"
| "store (Set_seek_callback cb) f = f\<lparr>seek_cb := cb\<rparr>"
| "store (Set_truncate_callback cb) f = f\<lparr>truncate_cb := cb\<rparr>"
| "store (Set_callback_data u) f = f\<lparr>cb_userdata := u\<rparr>"

text \<open>A sequence of setter calls: the statuses returned, in order, and the final handle.\<close>

fun apply_setters ::
  "('u, 'w, 's) setter list \<Rightarrow> ('u, 'w, 's) FilePrivate
     \<Rightarrow> FileStatus list \<times> ('u, 'w, 's) FilePrivate" where
  "apply_setters [] f = ([], f)"
| "apply_setters (s # ss) f =
     (case apply_setter s f of
        (r, f1) \<Rightarrow> (case apply_setters ss f1 of (rs, f2) \<Rightarrow> (r # rs, f2)))"

text \<open>The calls a caller can make on a handle between construction and destruction.\<close>

datatype 's file_op =
  Op_open
| Op_close
| Op_read ptr 's ptr
| Op_write ptr 's ptr
| Op_seek "64 word" "32 word" ptr
| Op_truncate "64 word"

fun apply_op ::
  "'s file_op \<Rightarrow> ('u, 'w, 's) FilePrivate \<times> 'w \<Rightarrow> ('u, 'w, 's) FilePrivate \<times> 'w" where
  "apply_op Op_open (f, w) = snd (File_open f w)"
| "apply_op Op_close (f, w) = snd (File_close f w)"
| "apply_op (Op_read buf n bytes_read) (f, w) = snd (File_read buf n bytes_read f w)"
| "apply_op (Op_write buf n bytes_written) (f, w) = snd (File_write buf n bytes_written f w)"
| "apply_op (Op_seek offset whence new_offset) (f, w) =
     (case File_seek offset whence new_offset f w of (ret, f1, w1, out) \<Rightarrow> (f1, w1))"
| "apply_op (Op_truncate n) (f, w) = snd (File_truncate n f w)"

fun run_ops ::
  "'s file_op list \<Rightarrow> ('u, 'w, 's) FilePrivate \<times> 'w \<Rightarrow> ('u, 'w, 's) FilePrivate \<times> 'w" where
  "run_ops [] fw = fw"
| "run_ops (x # xs) fw = run_ops xs (apply_op x fw)"

text \<open>The calls \<open>ops\<close> in order, then the destructor.\<close>

definition lifetime ::
  "'s file_op list \<Rightarrow> ('u, 'w, 's) FilePrivate \<Rightarrow> 'w \<Rightarrow> ('u, 'w, 's) FilePrivate \<times> 'w" where
  "lifetime ops f w = (case run_ops ops (f, w) of (f1, w1) \<Rightarrow> File_destroy f1 w1)"

text \<open>How often the close callback has run on a handle.\<close>

definition n_close :: "('u, 'w, 's) FilePrivate \<Rightarrow> nat" where
  "n_close f = count_list (cb_log f) Close_called"

section \<open>Open with callbacks (libmbcommon/src/file/callbacks.cpp)\<close>

text \<open>
  \<^verbatim>\<open>file_open_callbacks\<close>: the seven setters and \<^verbatim>\<open>File::open\<close>, each result folded into
  \<open>ret\<close> by \<^verbatim>\<open>if (ret2 < ret) ret = ret2\<close>.
\<close>

definition keep_lower :: "FileStatus \<Rightarrow> FileStatus \<Rightarrow> FileStatus" where
  "keep_lower ret2 ret = (if ret2 < ret then ret2 else ret)"

definition file_open_callbacks ::
  "('u, 'w, 's) FilePrivate \<Rightarrow> ('u, 'w) OpenCb option \<Rightarrow> ('u, 'w) CloseCb option
     \<Rightarrow> ('u, 'w, 's) ReadCb option \<Rightarrow> ('u, 'w, 's) WriteCb option
     \<Rightarrow> ('u, 'w) SeekCb option \<Rightarrow> ('u, 'w) TruncateCb option \<Rightarrow> 'u \<Rightarrow> 'w
     \<Rightarrow> FileStatus \<times> ('u, 'w, 's) FilePrivate \<times> 'w" where
  "file_open_callbacks file open_cb' close_cb' read_cb' write_cb' seek_cb' truncate_cb'
       userdata w =
     (let ret = FileStatus.OK;
          (ret2, file) = File_set_open_callback open_cb' file;
          ret = keep_lower ret2 ret;
          (ret2, file) = File_set_close_callback close_cb' file;
          ret = keep_lower ret2 ret;
          (ret2, file) = File_set_read_callback read_cb' file;
          ret = keep_lower ret2 ret;
          (ret2, file) = File_set_write_callback write_cb' file;
          ret = keep_lower ret2 ret;
          (ret2, file) = File_set_seek_callback seek_cb' file;
          ret = keep_lower ret2 ret;
          (ret2, file) = File_set_truncate_callback truncate_cb' file;
          ret = keep_lower ret2 ret;
          (ret2, file) = File_set_callback_data userdata file;
          ret = keep_lower ret2 ret;
          (ret2, file, w) = File_open file w;
          ret = keep_lower ret2 ret
      in (ret, file, w))"

section \<open>The backends\<close>

text \<open>
  State shared by the backends: the C library's \<^verbatim>\<open>errno\<close>. A backend's world extends it.
\<close>

record sys =
  errno :: int

definition EISDIR :: int where "EISDIR = 21"
definition ENOMEM :: int where "ENOMEM = 12"

subsection \<open>File descriptors (libmbcommon/src/file/fd.cpp)\<close>

text \<open>
  \<^verbatim>\<open>struct stat\<close>, of which the code reads \<^verbatim>\<open>st_mode\<close> only, and the file type macros of
  \<^verbatim>\<open>sys/stat.h\<close> with the Linux values of their masks.
\<close>

record stat =
  st_mode :: "32 word"

definition S_IFMT :: "32 word" where "S_IFMT = 0xF000"
definition S_IFDIR :: "32 word" where "S_IFDIR = 0x4000"
definition S_IFREG :: "32 word" where "S_IFREG = 0x8000"
definition S_IFBLK :: "32 word" where "S_IFBLK = 0x6000"

definition S_ISDIR :: "32 word \<Rightarrow> bool" where
  "S_ISDIR m = (m AND S_IFMT = S_IFDIR)"

definition S_ISREG :: "32 word \<Rightarrow> bool" where
  "S_ISREG m = (m AND S_IFMT = S_IFREG)"

definition S_ISBLK :: "32 word \<Rightarrow> bool" where
  "S_ISBLK m = (m AND S_IFMT = S_IFBLK)"

text \<open>\<^verbatim>\<open>DEFAULT_MODE\<close>: read and write for user, group and others (octal 666).\<close>

definition DEFAULT_MODE :: int where "DEFAULT_MODE = 438"

text \<open>
  \<^verbatim>\<open>struct FdFileFuncs\<close> (fd\_p.h), the system calls the backend goes through; here the
  members the open and close callbacks call. Each takes the world and returns its result
  with the world it leaves (a failing call sets \<^verbatim>\<open>errno\<close> there). \<^verbatim>\<open>fn_fstat\<close> returns,
  beside its status, the \<^verbatim>\<open>struct stat\<close> it stored. C \<^verbatim>\<open>int\<close> results and descriptors are
  integers: the code only compares them with 0 and negates \<^verbatim>\<open>errno\<close>.
\<close>

record 'x FdFileFuncs =
  fn_open :: "string \<Rightarrow> int \<Rightarrow> int \<Rightarrow> 'x sys_scheme \<Rightarrow> int \<times> 'x sys_scheme"
  fn_fstat :: "int \<Rightarrow> 'x sys_scheme \<Rightarrow> (int \<times> stat) \<times> 'x sys_scheme"
  fn_close :: "int \<Rightarrow> 'x sys_scheme \<Rightarrow> int \<times> 'x sys_scheme"

text \<open>\<^verbatim>\<open>struct FdFileCtx\<close> (fd\_p.h).\<close>

record 'x FdFileCtx =
  fd :: int
  owned :: bool
  filename :: string
  flags :: int
  funcs :: "'x FdFileFuncs"

text \<open>
  \<^verbatim>\<open>fd_open_cb\<close>: open the file when a filename is set, then \<^verbatim>\<open>fstat\<close> the descriptor and
  refuse a directory. The messages are the fixed part of the format strings; the
  \<^verbatim>\<open>strerror(errno)\<close> text is the C library's.
\<close>

definition fd_open_cb :: "('x FdFileCtx, 'x sys_scheme) OpenCb" where
  "fd_open_cb ctx w =
     (case (if filename ctx \<noteq> []
            then (case fn_open (funcs ctx) (filename ctx) (flags ctx) DEFAULT_MODE w of
                    (r, w') \<Rightarrow> (ctx\<lparr>fd := r\<rparr>, w'))
            else (ctx, w)) of
        (ctx1, w1) \<Rightarrow>
          if filename ctx \<noteq> [] \<and> fd ctx1 < 0
          then (FileStatus.FAILED, ctx1, w1, Some (- errno w1, ''Failed to open file''))
          else
            (case fn_fstat (funcs ctx1) (fd ctx1) w1 of
               ((r, sb), w2) \<Rightarrow>
                 if r < 0
                 then (FileStatus.FAILED, ctx1, w2, Some (- errno w2, ''Failed to stat file''))
                 else if S_ISDIR (st_mode sb)
                 then (FileStatus.FAILED, ctx1, w2, Some (- EISDIR, ''Cannot open directory''))
                 else (FileStatus.OK, ctx1, w2, None)))"

text \<open>
  \<^verbatim>\<open>fd_close_cb\<close>: \<^verbatim>\<open>fn_close\<close> is called only when the descriptor is owned and not
  negative. \<^verbatim>\<open>free_ctx\<close> releases the context object, which nothing reads afterwards.
\<close>

definition fd_close_cb :: "('x FdFileCtx, 'x sys_scheme) CloseCb" where
  "fd_close_cb ctx w =
     (if owned ctx \<and> 0 \<le> fd ctx
      then (case fn_close (funcs ctx) (fd ctx) w of
              (r, w1) \<Rightarrow>
                if r < 0
                then (FileStatus.FAILED, ctx, w1, Some (- errno w1, ''Failed to close file''))
                else (FileStatus.OK, ctx, w1, None))
      else (FileStatus.OK, ctx, w, None))"

subsection \<open>Buffered streams (libmbcommon/src/file/posix.cpp)\<close>

text \<open>
  \<^verbatim>\<open>struct PosixFileFuncs\<close> and \<^verbatim>\<open>struct PosixFileCtx\<close> (posix\_p.h); of the former the
  members the open and close callbacks call. A \<^verbatim>\<open>FILE *\<close> is an address; \<^verbatim>\<open>EOF\<close> is -1.
\<close>

record 'x PosixFileFuncs =
  fn_fopen :: "string \<Rightarrow> string \<Rightarrow> 'x sys_scheme \<Rightarrow> ptr \<times> 'x sys_scheme"
  fn_fileno :: "ptr \<Rightarrow> 'x sys_scheme \<Rightarrow> int \<times> 'x sys_scheme"
  fn_fstat' :: "int \<Rightarrow> 'x sys_scheme \<Rightarrow> (int \<times> stat) \<times> 'x sys_scheme"
  fn_fclose :: "ptr \<Rightarrow> 'x sys_scheme \<Rightarrow> int \<times> 'x sys_scheme"

record 'x PosixFileCtx =
  fp :: ptr
  owned' :: bool
  filename' :: string
  mode :: string
  can_seek :: bool
  funcs' :: "'x PosixFileFuncs"

definition EOF :: int where "EOF = -1"

text \<open>
  \<^verbatim>\<open>posix_open_cb\<close> (the Linux build: a block device counts as seekable). The \<^verbatim>\<open>fstat\<close>
  and the directory test are made only when \<^verbatim>\<open>fileno\<close> yields a descriptor
  (\<^verbatim>\<open>if (fd >= 0)\<close>).
\<close>

definition posix_open_cb :: "('x PosixFileCtx, 'x sys_scheme) OpenCb" where
  "posix_open_cb ctx w =
     (case (if filename' ctx \<noteq> []
            then (case fn_fopen (funcs' ctx) (filename' ctx) (mode ctx) w of
                    (r, w') \<Rightarrow> (ctx\<lparr>fp := r\<rparr>, w'))
            else (ctx, w)) of
        (ctx1, w1) \<Rightarrow>
          if filename' ctx \<noteq> [] \<and> fp ctx1 = nullptr
          then (FileStatus.FAILED, ctx1, w1, Some (- errno w1, ''Failed to open file''))
          else
            (case fn_fileno (funcs' ctx1) (fp ctx1) w1 of
               (fd', w2) \<Rightarrow>
                 if 0 \<le> fd'
                 then
                   (case fn_fstat' (funcs' ctx1) fd' w2 of
                      ((r, sb), w3) \<Rightarrow>
                        if r < 0
                        then (FileStatus.FAILED, ctx1, w3,
                              Some (- errno w3, ''Failed to stat file''))
                        else if S_ISDIR (st_mode sb)
                        then (FileStatus.FAILED, ctx1, w3,
                              Some (- EISDIR, ''Cannot open directory''))
                        else (FileStatus.OK,
                              if S_ISREG (st_mode sb) \<or> S_ISBLK (st_mode sb)
                              then ctx1\<lparr>can_seek := True\<rparr> else ctx1,
                              w3, None))
                 else (FileStatus.OK, ctx1, w2, None)))"

definition posix_close_cb :: "('x PosixFileCtx, 'x sys_scheme) CloseCb" where
  "posix_close_cb ctx w =
     (if owned' ctx \<and> fp ctx \<noteq> nullptr
      then (case fn_fclose (funcs' ctx) (fp ctx) w of
              (r, w1) \<Rightarrow>
                if r = EOF
                then (FileStatus.FAILED, ctx, w1, Some (- errno w1, ''Failed to close file''))
                else (FileStatus.OK, ctx, w1, None))
      else (FileStatus.OK, ctx, w, None))"

subsection \<open>Win32 handles (libmbcommon/src/file/win32.cpp)\<close>

text \<open>
  The world of the Win32 backend: the thread's last error code (\<^verbatim>\<open>GetLastError()\<close>, a
  \<^verbatim>\<open>DWORD\<close>) and the system's \<^verbatim>\<open>FormatMessageW\<close>, which for an error code gives the size
  and the address of the message buffer it allocated. A \<^verbatim>\<open>HANDLE\<close> is a 64-bit value,
  \<^verbatim>\<open>INVALID_HANDLE_VALUE\<close> is -1.
\<close>

record win_sys =
  last_error :: "32 word"
  FormatMessageW :: "32 word \<Rightarrow> nat \<times> ptr"

type_synonym HANDLE = "64 word"

definition INVALID_HANDLE_VALUE :: HANDLE where "INVALID_HANDLE_VALUE = - 1"

text \<open>
  \<^verbatim>\<open>struct Win32FileFuncs\<close> (win32\_p.h): the member the open callback calls. The struct has
  no member that stats a handle or asks for its file type. The security attributes and
  the template handle of \<^verbatim>\<open>CreateFileW\<close> are fixed by the caller and left out.
\<close>

record 'x Win32FileFuncs =
  fn_CreateFileW ::
    "string \<Rightarrow> 32 word \<Rightarrow> 32 word \<Rightarrow> 32 word \<Rightarrow> 32 word \<Rightarrow> 'x win_sys_scheme
       \<Rightarrow> HANDLE \<times> 'x win_sys_scheme"

record 'x Win32FileCtx =
  handle :: HANDLE
  owned'' :: bool
  filename'' :: string
  error :: ptr
  access :: "32 word"
  sharing :: "32 word"
  creation :: "32 word"
  attrib :: "32 word"
  append :: bool
  funcs'' :: "'x Win32FileFuncs"

text \<open>
  \<^verbatim>\<open>win32_error_string\<close>: frees the previous message buffer and keeps the new one in the
  context, or null when \<^verbatim>\<open>FormatMessageW\<close> returns size 0. The text itself is not modelled.
\<close>

definition win32_error_string ::
  "'x Win32FileCtx \<Rightarrow> 32 word \<Rightarrow> 'x win_sys_scheme \<Rightarrow> 'x Win32FileCtx" where
  "win32_error_string ctx code w =
     (case FormatMessageW w code of
        (n, buf) \<Rightarrow> if n = 0 then ctx\<lparr>error := nullptr\<rparr> else ctx\<lparr>error := buf\<rparr>)"

text \<open>
  \<^verbatim>\<open>win32_open_cb\<close>: only the \<^verbatim>\<open>CreateFileW\<close> call when a filename is set. The error code
  is \<^verbatim>\<open>-GetLastError()\<close>, a negated \<^verbatim>\<open>DWORD\<close> read as \<^verbatim>\<open>int\<close>.
\<close>

definition win32_open_cb :: "('x Win32FileCtx, 'x win_sys_scheme) OpenCb" where
  "win32_open_cb ctx w =
     (if filename'' ctx \<noteq> []
      then (case fn_CreateFileW (funcs'' ctx) (filename'' ctx) (access ctx) (sharing ctx)
                   (creation ctx) (attrib ctx) w of
              (h, w1) \<Rightarrow>
                if h = INVALID_HANDLE_VALUE
                then (FileStatus.FAILED,
                      win32_error_string (ctx\<lparr>handle := h\<rparr>) (last_error w1) w1, w1,
                      Some (sint (- last_error w1), ''Failed to open file''))
                else (FileStatus.OK, ctx\<lparr>handle := h\<rparr>, w1, None))
      else (FileStatus.OK, ctx, w, None))"

subsection \<open>Memory buffers (libmbcommon/src/file/memory.cpp)\<close>

text \<open>
  Modelled from the spec: \<^verbatim>\<open>struct MemoryFileCtx\<close> is declared in
  \<^verbatim>\<open>mbcommon/file/memory_p.h\<close>, which is not among the sources. Its fields are the ones
  memory.cpp reads and writes (and the spec lists): the buffer pointer, its size, the
  caller's pointer and size slots (null when absent), the position and the fixed-size
  flag. The type \<open>'a word\<close> is \<^verbatim>\<open>size_t\<close>, whose width the platform fixes (32 or 64 bits on
  the platforms the library builds for); \<^verbatim>\<open>SIZE_MAX\<close> is its largest value.
\<close>

record (overloaded) 'a MemoryFileCtx =
  data :: ptr
  size' :: "'a word"
  data_ptr :: ptr
  size_ptr :: ptr
  pos :: "'a word"
  fixed_size :: bool

definition SIZE_MAX :: "'a::len word" where "SIZE_MAX = - 1"

text \<open>
  The memory a memory-backed handle works on: the contents of the allocated block at each
  address, the caller's pointer variables and size variables by address, and the
  allocator's next answer: \<open>realloc_next\<close> is the address the next \<^verbatim>\<open>realloc\<close> returns, null
  when it fails; \<open>realloc_junk\<close> gives the indeterminate bytes of newly allocated space.
\<close>

record (overloaded) 'a memory = sys +
  bytes_at :: "ptr \<Rightarrow> 8 word list"
  ptr_slots :: "ptr \<Rightarrow> ptr"
  size_slots :: "ptr \<Rightarrow> 'a word"
  realloc_next :: ptr
  realloc_junk :: "nat \<Rightarrow> 8 word"

text \<open>
  The C library's \<^verbatim>\<open>realloc(p, n)\<close>: on failure null, \<^verbatim>\<open>errno\<close> set and the old block
  untouched; on success a block of \<open>n\<close> bytes that starts with the old contents.
\<close>

definition realloc :: "ptr \<Rightarrow> nat \<Rightarrow> 'a memory \<Rightarrow> ptr \<times> 'a memory" where
  "realloc p n m =
     (if realloc_next m = nullptr then (nullptr, m\<lparr>errno := ENOMEM\<rparr>)
      else (realloc_next m,
            m\<lparr>bytes_at := (bytes_at m)
                 (realloc_next m :=
                    take n (bytes_at m p) @ map (realloc_junk m) [length (bytes_at m p)..<n])\<rparr>))"

text \<open>\<^verbatim>\<open>memset(block + off, v, n)\<close> and \<^verbatim>\<open>memcpy(block + off, src, length src)\<close> on a block.\<close>

definition memset_at :: "8 word list \<Rightarrow> nat \<Rightarrow> 8 word \<Rightarrow> nat \<Rightarrow> 8 word list" where
  "memset_at block off v n = take off block @ replicate n v @ drop (off + n) block"

definition memcpy_at :: "8 word list \<Rightarrow> nat \<Rightarrow> 8 word list \<Rightarrow> 8 word list" where
  "memcpy_at block off src = take off block @ src @ drop (off + length src) block"

text \<open>
  \<^verbatim>\<open>memory_write_cb\<close>. \<open>buf\<close> holds the bytes at the caller's \<^verbatim>\<open>buf\<close> pointer, of which the
  first \<open>n\<close> (\<^verbatim>\<open>size\<close>) are to be written. The last component of the result is the value
  stored in \<^verbatim>\<open>*bytes_written\<close>, \<open>None\<close> when the callback returns before storing it.
  \<open>memory_write_copy\<close> is the end of the function, from the \<^verbatim>\<open>memcpy\<close> on, which every
  path that does not fail reaches with its \<^verbatim>\<open>to_write\<close>.
\<close>

definition memory_write_copy ::
  "'a::len MemoryFileCtx \<Rightarrow> 8 word list \<Rightarrow> 'a word \<Rightarrow> 'a memory
     \<Rightarrow> ('a MemoryFileCtx, 'a memory) cb_result \<times> 'a word option" where
  "memory_write_copy ctx buf to_write m =
     ((FileStatus.OK,
       ctx\<lparr>pos := pos ctx + to_write\<rparr>,
       m\<lparr>bytes_at := (bytes_at m)
           (data ctx :=
              memcpy_at (bytes_at m (data ctx)) (unat (pos ctx)) (take (unat to_write) buf))\<rparr>,
       None),
      Some to_write)"

definition memory_write_cb ::
  "'a::len MemoryFileCtx \<Rightarrow> 8 word list \<Rightarrow> 'a word \<Rightarrow> 'a memory
     \<Rightarrow> ('a MemoryFileCtx, 'a memory) cb_result \<times> 'a word option" where
  "memory_write_cb ctx buf n m =
     (if pos ctx > SIZE_MAX - n
      then ((FileStatus.FAILED, ctx, m,
             Some (FileError_INVALID_ARGUMENT, ''Write would overflow size_t'')), None)
      else
        (let desired_size = pos ctx + n
         in if desired_size > size' ctx
            then
              (if fixed_size ctx
               then memory_write_copy ctx buf
                      (if pos ctx \<le> size' ctx then size' ctx - pos ctx else 0) m
               else
                 (case realloc (data ctx) (unat desired_size) m of
                    (new_data, m1) \<Rightarrow>
                      if new_data = nullptr
                      then ((FileStatus.FAILED, ctx, m1,
                             Some (- errno m1, ''Failed to enlarge buffer'')), None)
                      else
                        (let m2 = m1\<lparr>bytes_at := (bytes_at m1)
                                    (new_data :=
                                       memset_at (bytes_at m1 new_data) (unat (size' ctx)) 0
                                         (unat (desired_size - size' ctx)))\<rparr>;
                             ctx1 = ctx\<lparr>data := new_data, size' := desired_size\<rparr>;
                             m3 = (if data_ptr ctx1 \<noteq> nullptr
                                   then m2\<lparr>ptr_slots :=
                                          (ptr_slots m2)(data_ptr ctx1 := data ctx1)\<rparr>
                                   else m2);
                             m4 = (if size_ptr ctx1 \<noteq> nullptr
                                   then m3\<lparr>size_slots :=
                                          (size_slots m3)(size_ptr ctx1 := size' ctx1)\<rparr>
                                   else m3)
                         in memory_write_copy ctx1 buf n m4)))
            else memory_write_copy ctx buf n m))"

text \<open>
  \<^verbatim>\<open>memory_seek_cb\<close>. \<open>offset\<close> is the \<^verbatim>\<open>int64_t\<close> argument, read as signed by \<open>sint\<close>;
  \<^verbatim>\<open>whence\<close> is one of \<^verbatim>\<open>SEEK_SET\<close>, \<^verbatim>\<open>SEEK_CUR\<close>, \<^verbatim>\<open>SEEK_END\<close> of \<^verbatim>\<open>stdio.h\<close>. The
  comparisons between a \<^verbatim>\<open>uint64_t\<close> and a \<^verbatim>\<open>size_t\<close> compare the values (\<open>unat\<close>). The
  casts are the code's: \<^verbatim>\<open>static_cast<uint64_t>(-offset)\<close> for \<^verbatim>\<open>SEEK_CUR\<close> keeps all 64
  bits, \<^verbatim>\<open>static_cast<size_t>(-offset)\<close> for \<^verbatim>\<open>SEEK_END\<close> keeps the low bits that fit
  \<^verbatim>\<open>size_t\<close> (\<open>ucast\<close>). The negation of the most negative offset wraps around as on all
  supported compilers. The assignments add the offset to a \<^verbatim>\<open>size_t\<close> modulo its range.
  The last component of the result is the value stored in \<^verbatim>\<open>*new_offset\<close>.
\<close>

definition SEEK_SET :: "32 word" where "SEEK_SET = 0"
definition SEEK_CUR :: "32 word" where "SEEK_CUR = 1"
definition SEEK_END :: "32 word" where "SEEK_END = 2"

definition memory_seek_cb ::
  "'a::len MemoryFileCtx \<Rightarrow> 64 word \<Rightarrow> 32 word
     \<Rightarrow> FileStatus \<times> 'a MemoryFileCtx \<times> (int \<times> string) option \<times> 64 word option" where
  "memory_seek_cb ctx offset whence =
     (if whence = SEEK_SET
      then
        (if sint offset < 0 \<or> unat offset > unat (SIZE_MAX :: 'a word)
         then (FileStatus.FAILED, ctx,
               Some (FileError_INVALID_ARGUMENT, ''Invalid SEEK_SET offset''), None)
         else (let p = (ucast offset :: 'a word)
               in (FileStatus.OK, ctx\<lparr>pos := p\<rparr>, None, Some (ucast p))))
      else if whence = SEEK_CUR
      then
        (if (sint offset < 0 \<and> unat (- offset) > unat (pos ctx)) \<or>
            (0 < sint offset \<and> unat offset > unat (SIZE_MAX - pos ctx))
         then (FileStatus.FAILED, ctx,
               Some (FileError_INVALID_ARGUMENT, ''Invalid SEEK_CUR offset''), None)
         else (let p = pos ctx + scast offset
               in (FileStatus.OK, ctx\<lparr>pos := p\<rparr>, None, Some (ucast p))))
      else if whence = SEEK_END
      then
        (if (sint offset < 0 \<and> (ucast (- offset) :: 'a word) > size' ctx) \<or>
            (0 < sint offset \<and> unat offset > unat (SIZE_MAX - size' ctx))
         then (FileStatus.FAILED, ctx,
               Some (FileError_INVALID_ARGUMENT, ''Invalid SEEK_END offset''), None)
         else (let p = size' ctx + scast offset
               in (FileStatus.OK, ctx\<lparr>pos := p\<rparr>, None, Some (ucast p))))
      else (FileStatus.FAILED, ctx,
            Some (FileError_INVALID_ARGUMENT, ''Invalid whence argument''), None))"

section \<open>Handles for concrete runs (after libmbcommon/tests/test\_file.cpp)\<close>

text \<open>
  The fixture of the tests counts the calls of its callbacks in the object behind
  \<^verbatim>\<open>userdata\<close> (\<^verbatim>\<open>++test->_n_close\<close>). Here that object is the pair of the counters
  \<^verbatim>\<open>_n_open\<close> and \<^verbatim>\<open>_n_close\<close>; the rest of the world is empty.
\<close>

type_synonym fixture = "nat \<times> nat"

definition counting_open_cb :: "FileStatus \<Rightarrow> (fixture, unit) OpenCb" where
  "counting_open_cb ret = (\<lambda>(n_open, n_closed) w. (ret, (Suc n_open, n_closed), w, None))"

definition counting_close_cb :: "FileStatus \<Rightarrow> (fixture, unit) CloseCb" where
  "counting_close_cb ret = (\<lambda>(n_open, n_closed) w. (ret, (n_open, Suc n_closed), w, None))"

definition failing_io_cb :: "(fixture, unit, 64 word) ReadCb" where
  "failing_io_cb = (\<lambda>u buf n out w. (FileStatus.FATAL, u, w, Some (-5, ''I/O error'')))"

text \<open>A new handle with an open callback returning \<open>r\<close> and a close callback returning \<open>c\<close>.\<close>

definition test_file :: "FileStatus \<Rightarrow> FileStatus \<Rightarrow> (fixture, unit, 64 word) FilePrivate" where
  "test_file r c =
     (File_new (0, 0))
       \<lparr>open_cb := Some (counting_open_cb r), close_cb := Some (counting_close_cb c),
        read_cb := Some failing_io_cb, write_cb := Some failing_io_cb\<rparr>"

text \<open>
  System-call doubles after the mocks of test\_fd.cpp and test\_posix.cpp: every path
  opens (descriptor 3, stream 7), every descriptor stats as a directory with mode 0777
  (\<^verbatim>\<open>S_IFDIR | S_IRWXU | S_IRWXG | S_IRWXO\<close>), closing succeeds; \<^verbatim>\<open>fileno\<close> answers
  \<open>fileno_result\<close>.
\<close>

definition dir_stat :: stat where
  "dir_stat = \<lparr>st_mode = 0x41FF\<rparr>"

definition dir_fd_funcs :: "unit FdFileFuncs" where
  "dir_fd_funcs =
     \<lparr>fn_open = (\<lambda>path fl md w. (3, w)),
      fn_fstat = (\<lambda>d w. ((0, dir_stat), w)),
      fn_close = (\<lambda>d w. (0, w))\<rparr>"

definition dir_posix_funcs :: "int \<Rightarrow> unit PosixFileFuncs" where
  "dir_posix_funcs fileno_result =
     \<lparr>fn_fopen = (\<lambda>path md w. (7, w)),
      fn_fileno = (\<lambda>stream w. (fileno_result, w)),
      fn_fstat' = (\<lambda>d w. ((0, dir_stat), w)),
      fn_fclose = (\<lambda>stream w. (0, w))\<rparr>"

definition dir_win32_funcs :: "unit Win32FileFuncs" where
  "dir_win32_funcs = \<lparr>fn_CreateFileW = (\<lambda>path acc sh cr at w. (5, w))\<rparr>"

text \<open>
  Handles as the filename constructors set them up (\<^verbatim>\<open>owned = true\<close>, the callbacks of
  the backend, the context as user data), before \<^verbatim>\<open>open()\<close>.
\<close>

definition fd_dir_file :: "(unit FdFileCtx, sys, 64 word) FilePrivate" where
  "fd_dir_file =
     (File_new \<lparr>fd = 0, owned = True, filename = ''/tmp'', flags = 0, funcs = dir_fd_funcs\<rparr>)
       \<lparr>open_cb := Some fd_open_cb, close_cb := Some fd_close_cb\<rparr>"

definition posix_dir_file :: "int \<Rightarrow> (unit PosixFileCtx, sys, 64 word) FilePrivate" where
  "posix_dir_file fileno_result =
     (File_new \<lparr>fp = 0, owned' = True, filename' = ''/tmp'', mode = ''rb'', can_seek = False,
               funcs' = dir_posix_funcs fileno_result\<rparr>)
       \<lparr>open_cb := Some posix_open_cb, close_cb := Some posix_close_cb\<rparr>"

definition win32_dir_ctx :: "unit Win32FileCtx" where
  "win32_dir_ctx =
     \<lparr>handle = 0, owned'' = True, filename'' = ''C:/Windows'', error = 0, access = 0x80000000,
      sharing = 3, creation = 3, attrib = 0, append = False, funcs'' = dir_win32_funcs\<rparr>"

definition win32_world :: win_sys where
  "win32_world = \<lparr>last_error = 0, FormatMessageW = (\<lambda>code. (0, 0))\<rparr>"

text \<open>
  A dynamic memory buffer of two bytes at address 1, with the caller's pointer variable at
  address 10 and size variable at address 11, the position at 4; \<open>next\<close> is what the
  allocator answers.
\<close>

definition mem_ctx :: "'a::len MemoryFileCtx" where
  "mem_ctx = \<lparr>data = 1, size' = 2, data_ptr = 10, size_ptr = 11, pos = 4, fixed_size = False\<rparr>"

definition mem_world :: "ptr \<Rightarrow> 'a::len memory" where
  "mem_world next =
     \<lparr>errno = 0, bytes_at = (\<lambda>a. [])(1 := [97, 98]), ptr_slots = (\<lambda>a. 0)(10 := 1),
      size_slots = (\<lambda>a. 0)(11 := 2), realloc_next = next, realloc_junk = (\<lambda>i. 255)\<rparr>"

section \<open>Properties of the File core\<close>

subsection \<open>Auxiliary facts\<close>

lemma le_FATAL_iff: "(r \<le> FileStatus.FATAL) = (r = FileStatus.FATAL)"
  by (cases r) (simp_all add: less_eq_FileStatus_def)

lemma OK_greatest: "r \<le> FileStatus.OK"
  by (cases r) (simp_all add: less_eq_FileStatus_def)

lemma keep_lower_min: "keep_lower a b = min a b"
  by (auto simp: keep_lower_def min_def)

lemmas core_defs = File_open_def File_close_def File_read_def File_write_def File_seek_def
  File_truncate_def invoke_def set_error_def set_error_v_def ENSURE_STATE_fail_def

lemmas setter_defs = File_set_open_callback_def File_set_close_callback_def
  File_set_read_callback_def File_set_write_callback_def File_set_seek_callback_def
  File_set_truncate_callback_def File_set_callback_data_def

lemmas fixture_defs = test_file_def File_new_def counting_open_cb_def counting_close_cb_def
  failing_io_cb_def

lemma apply_setter_NEW:
  "state f = FileState.NEW \<Longrightarrow> apply_setter s f = (FileStatus.OK, store s f)"
  by (cases s) (simp_all add: setter_defs)

lemma store_state: "state (store s f) = state f"
  by (cases s) simp_all

lemma apply_setter_not_NEW:
  "state f \<noteq> FileState.NEW \<Longrightarrow>
     apply_setter s f =
       (FileStatus.FATAL,
        ENSURE_STATE_fail
          (case s of
             Set_open_callback _ \<Rightarrow> ''set_open_callback''
           | Set_close_callback _ \<Rightarrow> ''set_close_callback''
           | Set_read_callback _ \<Rightarrow> ''set_read_callback''
           | Set_write_callback _ \<Rightarrow> ''set_write_callback''
           | Set_seek_callback _ \<Rightarrow> ''set_seek_callback''
           | Set_truncate_callback _ \<Rightarrow> ''set_truncate_callback''
           | Set_callback_data _ \<Rightarrow> ''set_callback_data'') f)"
  by (cases s) (simp_all add: setter_defs)

lemma apply_setters_NEW:
  "state f = FileState.NEW \<Longrightarrow>
     apply_setters ss f = (replicate (length ss) FileStatus.OK, foldl (\<lambda>g s. store s g) f ss)"
  by (induction ss arbitrary: f) (simp_all add: apply_setter_NEW store_state)

lemma foldl_store_state: "state (foldl (\<lambda>g s. store s g) f ss) = state f"
  by (induction ss arbitrary: f) (simp_all add: store_state)

subsection \<open>The close callback over the lifetime of a handle\<close>

text \<open>
  Calls other than \<^verbatim>\<open>close\<close> on a handle that is OPENED or FATAL leave it OPENED or FATAL,
  never run the close callback and never change the slot.
\<close>

lemma apply_op_keeps:
  fixes f :: "('u, 'w, 's) FilePrivate"
  assumes "state f \<in> {FileState.OPENED, FileState.FATAL}" and "x \<noteq> Op_close"
    and "apply_op x (f, w) = (f1, w1)"
  shows "state f1 \<in> {FileState.OPENED, FileState.FATAL} \<and> n_close f1 = n_close f \<and>
     close_cb f1 = close_cb f"
  using assms
  by (cases x)
    (auto simp: core_defs n_close_def Let_def split: option.splits prod.splits if_splits)

lemma run_ops_keeps:
  fixes f :: "('u, 'w, 's) FilePrivate"
  assumes "state f \<in> {FileState.OPENED, FileState.FATAL}" and "Op_close \<notin> set ops"
    and "run_ops ops (f, w) = (f1, w1)"
  shows "state f1 \<in> {FileState.OPENED, FileState.FATAL} \<and> n_close f1 = n_close f \<and>
     close_cb f1 = close_cb f"
  using assms
proof (induction ops arbitrary: f w)
  case Nil
  then show ?case by simp
next
  case (Cons x xs)
  obtain f2 w2 where a: "apply_op x (f, w) = (f2, w2)" by (cases "apply_op x (f, w)")
  from Cons.prems have x: "x \<noteq> Op_close" and xs: "Op_close \<notin> set xs" by auto
  from apply_op_keeps [OF Cons.prems(1) x a]
  have k: "state f2 \<in> {FileState.OPENED, FileState.FATAL}" "n_close f2 = n_close f"
    "close_cb f2 = close_cb f" by simp_all
  from Cons.prems(3) a have "run_ops xs (f2, w2) = (f1, w1)" by simp
  from Cons.IH [OF k(1) xs this] k show ?case by simp
qed

lemma run_ops_append: "run_ops (xs @ ys) fw = run_ops ys (run_ops xs fw)"
  by (induction xs arbitrary: fw) simp_all

lemma close_first:
  fixes f :: "('u, 'w, 's) FilePrivate"
  assumes "state f \<in> {FileState.OPENED, FileState.FATAL}" and "close_cb f \<noteq> None"
    and "File_close f w = (r, f1, w1)"
  shows "state f1 = FileState.CLOSED \<and> n_close f1 = Suc (n_close f)"
  using assms by (auto simp: core_defs n_close_def split: option.splits prod.splits)

lemma close_again:
  fixes f :: "('u, 'w, 's) FilePrivate"
  assumes "state f = FileState.CLOSED"
  shows "File_close f w = (FileStatus.OK, f, w)"
  using assms by (simp add: core_defs)

lemma closes_closed:
  fixes f :: "('u, 'w, 's) FilePrivate"
  assumes "state f = FileState.CLOSED"
  shows "run_ops (replicate k Op_close) (f, w) = (f, w)"
  by (induction k) (simp_all add: close_again [OF assms])

lemma closes_then_destroy:
  fixes f :: "('u, 'w, 's) FilePrivate"
  assumes s: "state f \<in> {FileState.OPENED, FileState.FATAL}" and c: "close_cb f \<noteq> None"
  shows "n_close (fst (lifetime (replicate k Op_close) f w)) = Suc (n_close f)"
proof (cases k)
  case 0
  obtain r f1 w1 where cl: "File_close f w = (r, f1, w1)" by (cases "File_close f w")
  from close_first [OF s c cl] s cl 0 show ?thesis
    by (auto simp: lifetime_def File_destroy_def)
next
  case (Suc j)
  obtain r f1 w1 where cl: "File_close f w = (r, f1, w1)" by (cases "File_close f w")
  from close_first [OF s c cl]
  have f1: "state f1 = FileState.CLOSED" "n_close f1 = Suc (n_close f)"
    by simp_all
  show ?thesis
    by (simp add: Suc lifetime_def cl closes_closed [OF f1(1)] File_destroy_def f1)
qed

lemma lifetime_append:
  "lifetime (xs @ ys) f w = (case run_ops xs (f, w) of (f1, w1) \<Rightarrow> lifetime ys f1 w1)"
  by (simp add: lifetime_def run_ops_append split: prod.splits)

text \<open>
  Claim C1, as stated, fails: the close callback does not run exactly once over every
  lifetime. With an open callback that returns FAILED, two \<^verbatim>\<open>open()\<close> attempts run the
  close callback twice (each failed attempt cleans up through it, and the state stays NEW);
  a handle destroyed without any call never runs it; and with an open callback that returns
  FATAL, \<^verbatim>\<open>open()\<close> runs it once and the destructor, finding the state FATAL, runs it again.
\<close>

theorem close_callback_count_counterexample:
  "n_close (fst (lifetime [Op_open, Op_open] (test_file FileStatus.FAILED FileStatus.OK) ())) = 2 \<and>
   n_close (fst (lifetime [] (test_file FileStatus.FAILED FileStatus.OK) ())) = 0 \<and>
   n_close (fst (lifetime [Op_open] (test_file FileStatus.FATAL FileStatus.OK) ())) = 2"
  by (simp add: lifetime_def File_destroy_def core_defs fixture_defs n_close_def
      less_eq_FileStatus_def Let_def)

text \<open>
  Claim C1, amended: for a File with a registered close callback whose \<^verbatim>\<open>open()\<close> returns
  OK, every sequence of further calls in which no call other than \<^verbatim>\<open>close()\<close> follows a
  \<^verbatim>\<open>close()\<close> (any reads, writes, seeks, truncates and repeated opens, whatever statuses
  their callbacks return, then any number of closes), followed by destruction, runs the
  close callback exactly once; and a handle destroyed in state NEW without any call never
  runs it.
\<close>

theorem close_callback_once_after_successful_open:
  fixes f :: "('u, 'w, 's) FilePrivate"
  assumes new: "state f = FileState.NEW"
    and c: "close_cb f \<noteq> None"
    and ok: "fst (File_open f w) = FileStatus.OK"
    and ops: "Op_close \<notin> set ops"
  shows "n_close (fst (lifetime (Op_open # ops @ replicate k Op_close) f w)) = n_close f + 1 \<and>
    n_close (fst (lifetime [] f w)) = n_close f"
proof
  obtain r f0 w0 where o: "File_open f w = (r, f0, w0)" by (cases "File_open f w")
  with ok have r: "r = FileStatus.OK" by simp
  have f0: "state f0 = FileState.OPENED \<and> n_close f0 = n_close f \<and> close_cb f0 = close_cb f"
    using new o r
    by (auto simp: core_defs n_close_def Let_def split: option.splits prod.splits if_splits)
  obtain f1 w1 where ro: "run_ops ops (f0, w0) = (f1, w1)" by (cases "run_ops ops (f0, w0)")
  from f0 have s0: "state f0 \<in> {FileState.OPENED, FileState.FATAL}" by simp
  from run_ops_keeps [OF s0 ops ro] f0 c
  have f1: "state f1 \<in> {FileState.OPENED, FileState.FATAL}" "n_close f1 = n_close f"
    "close_cb f1 \<noteq> None" by simp_all
  have "lifetime (Op_open # ops @ replicate k Op_close) f w = lifetime (replicate k Op_close) f1 w1"
    using lifetime_append [of "Op_open # ops" "replicate k Op_close" f w] o ro by simp
  with closes_then_destroy [OF f1(1) f1(3), of k w1] f1(2)
  show "n_close (fst (lifetime (Op_open # ops @ replicate k Op_close) f w)) = n_close f + 1"
    by simp
next
  show "n_close (fst (lifetime [] f w)) = n_close f"
    using new by (simp add: lifetime_def File_destroy_def core_defs n_close_def)
qed

text \<open>
  A run of the amended claim C1: open, a read and a write whose callbacks return FATAL, a
  second open, two closes, the destructor. The close callback runs once.
\<close>

theorem close_callback_once_witness:
  "state (test_file FileStatus.OK FileStatus.FAILED) = FileState.NEW \<and>
   fst (File_open (test_file FileStatus.OK FileStatus.FAILED) ()) = FileStatus.OK \<and>
   n_close (fst (lifetime
      (Op_open # [Op_read 1 8 2, Op_write 1 8 2, Op_open] @ replicate (Suc (Suc 0)) Op_close)
      (test_file FileStatus.OK FileStatus.FAILED) ())) = 1 \<and>
   n_close (fst (lifetime [] (test_file FileStatus.OK FileStatus.FAILED) ())) = 0"
proof -
  let ?f = "test_file FileStatus.OK FileStatus.FAILED"
  have new: "state ?f = FileState.NEW" by (simp add: fixture_defs)
  have c: "close_cb ?f \<noteq> None" by (simp add: fixture_defs)
  have ok: "fst (File_open ?f ()) = FileStatus.OK" by (simp add: core_defs fixture_defs)
  have ops: "Op_close \<notin> set [Op_read 1 (8 :: 64 word) 2, Op_write 1 8 2, Op_open]" by simp
  have n0: "n_close ?f = 0" by (simp add: n_close_def fixture_defs)
  from close_callback_once_after_successful_open [OF new c ok ops, of "Suc (Suc 0)"] new ok n0
  show ?thesis by simp
qed

subsection \<open>open\<close>

text \<open>
  Claim C2: for a File in state NEW, \<^verbatim>\<open>open()\<close> returns OK and moves to OPENED when no open
  callback is registered; otherwise it runs the registered open callback on the stored user
  data and returns that callback's result unchanged; on OK the state becomes OPENED; on a
  fatal-level result the state becomes FATAL; and whenever the result is not OK, the
  registered close callback (if any) runs, after the open callback and on what it left,
  before \<^verbatim>\<open>open()\<close> returns.
\<close>

theorem File_open_from_NEW:
  fixes f :: "('u, 'w, 's) FilePrivate"
  assumes new: "state f = FileState.NEW"
  shows "(open_cb f = None \<longrightarrow>
       File_open f w = (FileStatus.OK, f\<lparr>state := FileState.OPENED\<rparr>, w)) \<and>
    (\<forall>cb ret u1 w1 e1. open_cb f = Some cb \<and> cb (cb_userdata f) w = (ret, u1, w1, e1) \<longrightarrow>
       fst (File_open f w) = ret \<and>
       (ret = FileStatus.OK \<longrightarrow>
          state (fst (snd (File_open f w))) = FileState.OPENED \<and>
          cb_log (fst (snd (File_open f w))) = cb_log f @ [Open_called] \<and>
          cb_userdata (fst (snd (File_open f w))) = u1 \<and>
          snd (snd (File_open f w)) = w1) \<and>
       (ret \<le> FileStatus.FATAL \<longrightarrow> state (fst (snd (File_open f w))) = FileState.FATAL) \<and>
       (ret \<noteq> FileStatus.OK \<longrightarrow>
          (close_cb f = None \<longrightarrow>
             cb_log (fst (snd (File_open f w))) = cb_log f @ [Open_called] \<and>
             cb_userdata (fst (snd (File_open f w))) = u1 \<and>
             snd (snd (File_open f w)) = w1) \<and>
          (\<forall>c rc u2 w2 e2. close_cb f = Some c \<and> c u1 w1 = (rc, u2, w2, e2) \<longrightarrow>
             cb_log (fst (snd (File_open f w))) = cb_log f @ [Open_called, Close_called] \<and>
             cb_userdata (fst (snd (File_open f w))) = u2 \<and>
             snd (snd (File_open f w)) = w2)))"
  using new
  by (auto simp: core_defs Let_def le_FATAL_iff split: option.splits prod.splits)

text \<open>
  A run of claim C2: the open callback returns FATAL; \<^verbatim>\<open>open()\<close> returns FATAL, the state
  is FATAL, and the close callback has run after the open callback.
\<close>

theorem File_open_from_NEW_witness:
  "state (test_file FileStatus.FATAL FileStatus.OK) = FileState.NEW \<and>
   fst (File_open (test_file FileStatus.FATAL FileStatus.OK) ()) = FileStatus.FATAL \<and>
   state (fst (snd (File_open (test_file FileStatus.FATAL FileStatus.OK) ()))) = FileState.FATAL \<and>
   cb_log (fst (snd (File_open (test_file FileStatus.FATAL FileStatus.OK) ()))) =
     [Open_called, Close_called] \<and>
   cb_userdata (fst (snd (File_open (test_file FileStatus.FATAL FileStatus.OK) ()))) = (1, 1)"
proof -
  let ?f = "test_file FileStatus.FATAL FileStatus.OK"
  have new: "state ?f = FileState.NEW" by (simp add: fixture_defs)
  have o: "open_cb ?f = Some (counting_open_cb FileStatus.FATAL)" by (simp add: fixture_defs)
  have c: "close_cb ?f = Some (counting_close_cb FileStatus.OK)" by (simp add: fixture_defs)
  have r: "counting_open_cb FileStatus.FATAL (cb_userdata ?f) () = (FileStatus.FATAL, (1, 0), (), None)"
    by (simp add: fixture_defs)
  have rc: "counting_close_cb FileStatus.OK (1, 0) () = (FileStatus.OK, (1, 1), (), None)"
    by (simp add: fixture_defs)
  have l: "cb_log ?f = []" by (simp add: fixture_defs)
  from File_open_from_NEW [OF new, of "()"] o c r rc l new show ?thesis
    by (simp add: le_FATAL_iff)
qed

text \<open>
  Claim C10: when the open callback returns a non-OK status strictly above the fatal level
  (RETRY, UNSUPPORTED, WARN or FAILED), \<^verbatim>\<open>open()\<close> returns it and the state is still NEW:
  every setter then succeeds and stores its value, and a second \<^verbatim>\<open>open()\<close> runs the open
  callback again and, when that fails, the close callback again.
\<close>

theorem open_nonfatal_failure_stays_NEW:
  fixes f :: "('u, 'w, 's) FilePrivate"
  assumes new: "state f = FileState.NEW"
    and cb: "open_cb f = Some cb"
    and res: "cb (cb_userdata f) w = (ret, u1, w1, e1)"
    and ret: "ret \<noteq> FileStatus.OK" "FileStatus.FATAL < ret"
    and op: "File_open f w = (r, f', w')"
  shows "r = ret \<and> state f' = FileState.NEW \<and>
     apply_setter s f' = (FileStatus.OK, store s f') \<and>
     open_cb f' = Some cb \<and>
     fst (File_open f' w') = fst (cb (cb_userdata f') w') \<and>
     cb_log (fst (snd (File_open f' w'))) =
       cb_log f' @ Open_called #
         (if fst (cb (cb_userdata f') w') = FileStatus.OK \<or> close_cb f' = None then []
          else [Close_called])"
proof -
  have nf: "\<not> ret \<le> FileStatus.FATAL" using ret by simp
  have st: "state f' = FileState.NEW" and o: "open_cb f' = Some cb" and r: "r = ret"
    using new cb res ret nf op
    by (auto simp: core_defs Let_def split: option.splits prod.splits)
  have second: "fst (File_open f' w') = fst (cb (cb_userdata f') w') \<and>
     cb_log (fst (snd (File_open f' w'))) =
       cb_log f' @ Open_called #
         (if fst (cb (cb_userdata f') w') = FileStatus.OK \<or> close_cb f' = None then []
          else [Close_called])"
    using st o by (cases "cb (cb_userdata f') w'")
      (auto simp: core_defs Let_def split: option.splits prod.splits)
  show ?thesis using st o r second apply_setter_NEW [OF st] by simp
qed

text \<open>
  A run of claim C10: the open callback returns FAILED twice. After the first
  \<^verbatim>\<open>open()\<close> the state is NEW and a setter succeeds; after the second the log holds both
  callbacks twice.
\<close>

theorem open_nonfatal_failure_witness:
  "state (test_file FileStatus.FAILED FileStatus.OK) = FileState.NEW \<and>
   FileStatus.FATAL < FileStatus.FAILED \<and>
   fst (File_open (test_file FileStatus.FAILED FileStatus.OK) ()) = FileStatus.FAILED \<and>
   state (fst (snd (File_open (test_file FileStatus.FAILED FileStatus.OK) ()))) = FileState.NEW \<and>
   fst (apply_setter (Set_read_callback None)
      (fst (snd (File_open (test_file FileStatus.FAILED FileStatus.OK) ())))) = FileStatus.OK \<and>
   cb_log (fst (snd (File_open
      (fst (snd (File_open (test_file FileStatus.FAILED FileStatus.OK) ()))) ()))) =
     [Open_called, Close_called, Open_called, Close_called]"
proof -
  let ?f = "test_file FileStatus.FAILED FileStatus.OK"
  let ?f' = "fst (snd (File_open ?f ()))"
  have new: "state ?f = FileState.NEW" by (simp add: fixture_defs)
  have o: "open_cb ?f = Some (counting_open_cb FileStatus.FAILED)" by (simp add: fixture_defs)
  have r: "counting_open_cb FileStatus.FAILED (cb_userdata ?f) () = (FileStatus.FAILED, (1, 0), (), None)"
    by (simp add: fixture_defs)
  have lt: "FileStatus.FATAL < FileStatus.FAILED" by (simp add: less_FileStatus_def)
  have op: "File_open ?f () = (fst (File_open ?f ()), ?f', ())" by (cases "File_open ?f ()") simp
  have l: "cb_log ?f' = [Open_called, Close_called]" "close_cb ?f' \<noteq> None"
    "cb_userdata ?f' = (1, 1)"
    by (simp_all add: core_defs fixture_defs less_eq_FileStatus_def Let_def)
  from open_nonfatal_failure_stays_NEW [OF new o r _ lt op, of "Set_read_callback None"] l new lt
  show ?thesis by (simp add: fixture_defs)
qed

subsection \<open>close\<close>

text \<open>
  Claim C3, as stated, fails: \<^verbatim>\<open>close()\<close> on a NEW handle is not a no-op. It moves the
  handle from NEW to CLOSED (the test \<^verbatim>\<open>CloseNewFile\<close> expects that), so an \<^verbatim>\<open>open()\<close> that
  would have succeeded fails afterwards.
\<close>

theorem File_close_NEW_counterexample:
  "state (test_file FileStatus.OK FileStatus.OK) = FileState.NEW \<and>
   state (fst (snd (File_close (test_file FileStatus.OK FileStatus.OK) ()))) = FileState.CLOSED \<and>
   fst (File_open (test_file FileStatus.OK FileStatus.OK) ()) = FileStatus.OK \<and>
   fst (File_open (fst (snd (File_close (test_file FileStatus.OK FileStatus.OK) ()))) ()) =
     FileStatus.FATAL"
  by (simp add: core_defs fixture_defs)

text \<open>
  Claim C3, amended: \<^verbatim>\<open>close()\<close> on a File in state NEW or CLOSED returns OK, does not run
  the close callback and changes nothing but the state, which it sets to CLOSED (a NEW
  handle becomes CLOSED); in state OPENED or FATAL it runs the close callback if one is
  registered and returns that callback's result (OK if none is registered); in every case
  the state is CLOSED afterwards, also when the close callback returned a fatal-level status.
\<close>

theorem File_close_behaviour:
  fixes f :: "('u, 'w, 's) FilePrivate"
  shows "(state f \<in> {FileState.NEW, FileState.CLOSED} \<longrightarrow>
       File_close f w = (FileStatus.OK, f\<lparr>state := FileState.CLOSED\<rparr>, w)) \<and>
    (state f \<in> {FileState.OPENED, FileState.FATAL} \<longrightarrow>
       (close_cb f = None \<longrightarrow>
          File_close f w = (FileStatus.OK, f\<lparr>state := FileState.CLOSED\<rparr>, w)) \<and>
       (\<forall>c rc u1 w1 e1. close_cb f = Some c \<and> c (cb_userdata f) w = (rc, u1, w1, e1) \<longrightarrow>
          fst (File_close f w) = rc \<and>
          cb_log (fst (snd (File_close f w))) = cb_log f @ [Close_called] \<and>
          cb_userdata (fst (snd (File_close f w))) = u1 \<and>
          snd (snd (File_close f w)) = w1)) \<and>
    state (fst (snd (File_close f w))) = FileState.CLOSED"
  by (auto simp: core_defs split: option.splits prod.splits)

text \<open>
  A run of the amended claim C3: an opened handle whose close callback returns FATAL.
  \<^verbatim>\<open>close()\<close> returns FATAL, the callback has run once, the state is CLOSED.
\<close>

theorem File_close_behaviour_witness:
  "state (fst (snd (File_open (test_file FileStatus.OK FileStatus.FATAL) ()))) = FileState.OPENED \<and>
   fst (File_close (fst (snd (File_open (test_file FileStatus.OK FileStatus.FATAL) ()))) ()) =
     FileStatus.FATAL \<and>
   cb_log (fst (snd (File_close
      (fst (snd (File_open (test_file FileStatus.OK FileStatus.FATAL) ()))) ()))) =
     [Open_called, Close_called] \<and>
   state (fst (snd (File_close
      (fst (snd (File_open (test_file FileStatus.OK FileStatus.FATAL) ()))) ()))) = FileState.CLOSED"
proof -
  let ?g = "fst (snd (File_open (test_file FileStatus.OK FileStatus.FATAL) ()))"
  have g: "state ?g = FileState.OPENED" "close_cb ?g = Some (counting_close_cb FileStatus.FATAL)"
    "cb_userdata ?g = (1, 0)" "cb_log ?g = [Open_called]"
    by (simp_all add: core_defs fixture_defs)
  have rc: "counting_close_cb FileStatus.FATAL (1, 0) () = (FileStatus.FATAL, (1, 1), (), None)"
    by (simp add: fixture_defs)
  from File_close_behaviour [of ?g "()"] g rc show ?thesis by simp
qed

subsection \<open>The setters\<close>

text \<open>
  A successful \<^verbatim>\<open>open()\<close> leaves the six callback slots as they were stored and hands the
  stored user data to the open callback; the user data of the opened handle is what that
  callback left (the stored one when no open callback is registered).
\<close>

lemma File_open_OK_keeps_slots:
  fixes g :: "('u, 'w, 's) FilePrivate"
  assumes "state g = FileState.NEW" and "File_open g w = (FileStatus.OK, h, w1)"
  shows "state h = FileState.OPENED \<and>
     open_cb h = open_cb g \<and> close_cb h = close_cb g \<and> read_cb h = read_cb g \<and>
     write_cb h = write_cb g \<and> seek_cb h = seek_cb g \<and> truncate_cb h = truncate_cb g \<and>
     (open_cb g = None \<longrightarrow> cb_userdata h = cb_userdata g \<and> w1 = w \<and> cb_log h = cb_log g) \<and>
     (\<forall>ocb. open_cb g = Some ocb \<longrightarrow>
        fst (ocb (cb_userdata g) w) = FileStatus.OK \<and>
        fst (snd (ocb (cb_userdata g) w)) = cb_userdata h \<and>
        fst (snd (snd (ocb (cb_userdata g) w))) = w1 \<and>
        cb_log h = cb_log g @ [Open_called])"
  using assms
  by (auto simp: core_defs Let_def split: option.splits prod.splits if_splits)

text \<open>On an opened handle every operation runs the callback in its slot on the user data.\<close>

lemma File_read_dispatch:
  fixes h :: "('u, 'w, 's) FilePrivate"
  assumes "state h = FileState.OPENED" "bytes_read \<noteq> nullptr" "read_cb h = Some cb"
    and "cb (cb_userdata h) buf n bytes_read w = (ret, u2, w2, e)"
  shows "fst (File_read buf n bytes_read h w) = ret \<and>
     cb_log (fst (snd (File_read buf n bytes_read h w))) = cb_log h @ [Read_called] \<and>
     cb_userdata (fst (snd (File_read buf n bytes_read h w))) = u2 \<and>
     snd (snd (File_read buf n bytes_read h w)) = w2"
  using assms by (auto simp: core_defs split: option.splits prod.splits)

lemma File_write_dispatch:
  fixes h :: "('u, 'w, 's) FilePrivate"
  assumes "state h = FileState.OPENED" "bytes_written \<noteq> nullptr" "write_cb h = Some cb"
    and "cb (cb_userdata h) buf n bytes_written w = (ret, u2, w2, e)"
  shows "fst (File_write buf n bytes_written h w) = ret \<and>
     cb_log (fst (snd (File_write buf n bytes_written h w))) = cb_log h @ [Write_called] \<and>
     cb_userdata (fst (snd (File_write buf n bytes_written h w))) = u2 \<and>
     snd (snd (File_write buf n bytes_written h w)) = w2"
  using assms by (auto simp: core_defs split: option.splits prod.splits)

lemma File_seek_dispatch:
  fixes h :: "('u, 'w, 's) FilePrivate"
  assumes "state h = FileState.OPENED" "seek_cb h = Some cb"
    and "cb (cb_userdata h) offset whence w = ((ret, u2, w2, e), new_pos)"
  shows "fst (File_seek offset whence new_offset h w) = ret \<and>
     cb_log (fst (snd (File_seek offset whence new_offset h w))) = cb_log h @ [Seek_called] \<and>
     cb_userdata (fst (snd (File_seek offset whence new_offset h w))) = u2 \<and>
     fst (snd (snd (File_seek offset whence new_offset h w))) = w2 \<and>
     snd (snd (snd (File_seek offset whence new_offset h w))) =
       (if ret = FileStatus.OK \<and> new_offset \<noteq> nullptr then Some new_pos else None)"
  using assms by (auto simp: core_defs split: option.splits prod.splits)

lemma File_truncate_dispatch:
  fixes h :: "('u, 'w, 's) FilePrivate"
  assumes "state h = FileState.OPENED" "truncate_cb h = Some cb"
    and "cb (cb_userdata h) n w = (ret, u2, w2, e)"
  shows "fst (File_truncate n h w) = ret \<and>
     cb_log (fst (snd (File_truncate n h w))) = cb_log h @ [Truncate_called] \<and>
     cb_userdata (fst (snd (File_truncate n h w))) = u2 \<and>
     snd (snd (File_truncate n h w)) = w2"
  using assms by (auto simp: core_defs split: option.splits prod.splits)

lemma File_close_dispatch:
  fixes h :: "('u, 'w, 's) FilePrivate"
  assumes "state h = FileState.OPENED" "close_cb h = Some cb"
    and "cb (cb_userdata h) w = (ret, u2, w2, e)"
  shows "fst (File_close h w) = ret \<and>
     cb_log (fst (snd (File_close h w))) = cb_log h @ [Close_called] \<and>
     cb_userdata (fst (snd (File_close h w))) = u2 \<and>
     snd (snd (File_close h w)) = w2"
  using assms by (auto simp: core_defs split: option.splits prod.splits)


text \<open>
  Claim C7: in state NEW every setter returns OK and stores its value, so every sequence of
  setter calls made before \<^verbatim>\<open>open()\<close> succeeds throughout, leaves the handle NEW and leaves
  in each slot the value stored last; and the stored values are the ones used later:
  \<^verbatim>\<open>open()\<close> runs the stored open callback on the stored user data, a successful
  \<^verbatim>\<open>open()\<close> keeps all six slots, and on the opened handle \<^verbatim>\<open>read\<close>, \<^verbatim>\<open>write\<close>, \<^verbatim>\<open>seek\<close>,
  \<^verbatim>\<open>truncate\<close> and \<^verbatim>\<open>close\<close> each run the callback stored in their slot, on the user data
  as the open callback left it, and return its result. In any other state every setter
  returns FATAL, sets the error code PROGRAMMER_ERROR, forces the state FATAL and stores
  nothing.
\<close>

theorem setters_only_in_NEW:
  fixes f :: "('u, 'w, 's) FilePrivate"
  shows "(state f = FileState.NEW \<longrightarrow>
       apply_setter s f = (FileStatus.OK, store s f) \<and>
       apply_setters ss f =
         (replicate (length ss) FileStatus.OK, foldl (\<lambda>g s. store s g) f ss) \<and>
       state (snd (apply_setters ss f)) = FileState.NEW \<and>
       fst (File_open (snd (File_set_open_callback (Some cb) f)) w) =
         fst (cb (cb_userdata f) w) \<and>
       cb_log (fst (snd (File_open (snd (File_set_open_callback (Some cb) f)) w))) =
         cb_log f @ Open_called #
           (if fst (cb (cb_userdata f) w) = FileStatus.OK \<or> close_cb f = None then []
            else [Close_called]) \<and>
       (\<forall>ocb u. open_cb f = Some ocb \<longrightarrow>
          fst (File_open (snd (File_set_callback_data u f)) w) = fst (ocb u w)) \<and>
       (\<forall>g h w1. g = snd (apply_setters ss f) \<and> File_open g w = (FileStatus.OK, h, w1) \<longrightarrow>
          state h = FileState.OPENED \<and>
          open_cb h = open_cb g \<and> close_cb h = close_cb g \<and> read_cb h = read_cb g \<and>
          write_cb h = write_cb g \<and> seek_cb h = seek_cb g \<and>
          truncate_cb h = truncate_cb g \<and>
          (open_cb g = None \<longrightarrow> cb_userdata h = cb_userdata g \<and> w1 = w) \<and>
          (\<forall>ocb. open_cb g = Some ocb \<longrightarrow>
             fst (ocb (cb_userdata g) w) = FileStatus.OK \<and>
             fst (snd (ocb (cb_userdata g) w)) = cb_userdata h \<and>
             fst (snd (snd (ocb (cb_userdata g) w))) = w1 \<and>
             cb_log h = cb_log g @ [Open_called]) \<and>
          (\<forall>rcb buf n bytes_read ret u2 w2 e.
             bytes_read \<noteq> nullptr \<and> read_cb g = Some rcb \<and>
             rcb (cb_userdata h) buf n bytes_read w1 = (ret, u2, w2, e) \<longrightarrow>
               fst (File_read buf n bytes_read h w1) = ret \<and>
               cb_log (fst (snd (File_read buf n bytes_read h w1))) =
                 cb_log h @ [Read_called] \<and>
               cb_userdata (fst (snd (File_read buf n bytes_read h w1))) = u2 \<and>
               snd (snd (File_read buf n bytes_read h w1)) = w2) \<and>
          (\<forall>wcb buf n bytes_written ret u2 w2 e.
             bytes_written \<noteq> nullptr \<and> write_cb g = Some wcb \<and>
             wcb (cb_userdata h) buf n bytes_written w1 = (ret, u2, w2, e) \<longrightarrow>
               fst (File_write buf n bytes_written h w1) = ret \<and>
               cb_log (fst (snd (File_write buf n bytes_written h w1))) =
                 cb_log h @ [Write_called] \<and>
               cb_userdata (fst (snd (File_write buf n bytes_written h w1))) = u2 \<and>
               snd (snd (File_write buf n bytes_written h w1)) = w2) \<and>
          (\<forall>scb offset whence new_offset ret u2 w2 e new_pos.
             seek_cb g = Some scb \<and>
             scb (cb_userdata h) offset whence w1 = ((ret, u2, w2, e), new_pos) \<longrightarrow>
               fst (File_seek offset whence new_offset h w1) = ret \<and>
               cb_log (fst (snd (File_seek offset whence new_offset h w1))) =
                 cb_log h @ [Seek_called] \<and>
               cb_userdata (fst (snd (File_seek offset whence new_offset h w1))) = u2 \<and>
               fst (snd (snd (File_seek offset whence new_offset h w1))) = w2 \<and>
               snd (snd (snd (File_seek offset whence new_offset h w1))) =
                 (if ret = FileStatus.OK \<and> new_offset \<noteq> nullptr then Some new_pos
                  else None)) \<and>
          (\<forall>tcb n ret u2 w2 e.
             truncate_cb g = Some tcb \<and> tcb (cb_userdata h) n w1 = (ret, u2, w2, e) \<longrightarrow>
               fst (File_truncate n h w1) = ret \<and>
               cb_log (fst (snd (File_truncate n h w1))) = cb_log h @ [Truncate_called] \<and>
               cb_userdata (fst (snd (File_truncate n h w1))) = u2 \<and>
               snd (snd (File_truncate n h w1)) = w2) \<and>
          (\<forall>ccb ret u2 w2 e.
             close_cb g = Some ccb \<and> ccb (cb_userdata h) w1 = (ret, u2, w2, e) \<longrightarrow>
               fst (File_close h w1) = ret \<and>
               cb_log (fst (snd (File_close h w1))) = cb_log h @ [Close_called] \<and>
               cb_userdata (fst (snd (File_close h w1))) = u2 \<and>
               snd (snd (File_close h w1)) = w2))) \<and>
    (state f \<noteq> FileState.NEW \<longrightarrow>
       fst (apply_setter s f) = FileStatus.FATAL \<and>
       error_code (snd (apply_setter s f)) = FileError_PROGRAMMER_ERROR \<and>
       state (snd (apply_setter s f)) = FileState.FATAL \<and>
       snd (apply_setter s f) =
         f\<lparr>state := FileState.FATAL, error_code := FileError_PROGRAMMER_ERROR,
           error_string := error_string (snd (apply_setter s f))\<rparr>)"
proof (intro conjI impI allI)
  assume n: "state f = FileState.NEW"
  show "apply_setter s f = (FileStatus.OK, store s f)"
    by (rule apply_setter_NEW [OF n])
  show "apply_setters ss f =
      (replicate (length ss) FileStatus.OK, foldl (\<lambda>g s. store s g) f ss)"
    by (rule apply_setters_NEW [OF n])
  show "state (snd (apply_setters ss f)) = FileState.NEW"
    by (simp add: apply_setters_NEW [OF n] foldl_store_state n)
  show "fst (File_open (snd (File_set_open_callback (Some cb) f)) w) =
      fst (cb (cb_userdata f) w)"
    using n by (cases "cb (cb_userdata f) w")
      (simp add: File_set_open_callback_def File_open_def invoke_def Let_def
         split: option.splits prod.splits)
  show "cb_log (fst (snd (File_open (snd (File_set_open_callback (Some cb) f)) w))) =
      cb_log f @ Open_called #
        (if fst (cb (cb_userdata f) w) = FileStatus.OK \<or> close_cb f = None then []
         else [Close_called])"
    using n by (cases "cb (cb_userdata f) w")
      (auto simp: File_set_open_callback_def core_defs Let_def split: option.splits prod.splits)
  {
    fix ocb u
    assume "open_cb f = Some ocb"
    then show "fst (File_open (snd (File_set_callback_data u f)) w) = fst (ocb u w)"
      using n by (cases "ocb u w")
        (simp add: File_set_callback_data_def File_open_def invoke_def Let_def
           split: option.splits prod.splits)
  }
  {
    fix g h w1
    assume a: "g = snd (apply_setters ss f) \<and> File_open g w = (FileStatus.OK, h, w1)"
    then have "g = snd (apply_setters ss f)" by (rule conjunct1)
    then have g: "state g = FileState.NEW"
      by (simp add: apply_setters_NEW [OF n] foldl_store_state n)
    from a have o: "File_open g w = (FileStatus.OK, h, w1)" by (rule conjunct2)
    note k = File_open_OK_keeps_slots [OF g o]
    from k show "state h = FileState.OPENED" by simp
    then have op: "state h = FileState.OPENED" .
    from k show "open_cb h = open_cb g" "close_cb h = close_cb g" "read_cb h = read_cb g"
      "write_cb h = write_cb g" "seek_cb h = seek_cb g" "truncate_cb h = truncate_cb g"
      by simp_all
    then have sl: "close_cb h = close_cb g" "read_cb h = read_cb g"
      "write_cb h = write_cb g" "seek_cb h = seek_cb g" "truncate_cb h = truncate_cb g"
      by simp_all
    {
      assume "open_cb g = None"
      with k show "cb_userdata h = cb_userdata g" "w1 = w" by simp_all
    }
    {
      fix ocb assume "open_cb g = Some ocb"
      with k show "fst (ocb (cb_userdata g) w) = FileStatus.OK"
        "fst (snd (ocb (cb_userdata g) w)) = cb_userdata h"
        "fst (snd (snd (ocb (cb_userdata g) w))) = w1"
        "cb_log h = cb_log g @ [Open_called]" by simp_all
    }
    {
      fix rcb buf n bytes_read ret u2 w2 e
      assume b: "bytes_read \<noteq> nullptr \<and> read_cb g = Some rcb \<and>
        rcb (cb_userdata h) buf n bytes_read w1 = (ret, u2, w2, e)"
      then have "read_cb h = Some rcb" using sl by simp
      from File_read_dispatch [OF op _ this, of bytes_read buf n w1 ret u2 w2 e] b
      show "fst (File_read buf n bytes_read h w1) = ret"
        "cb_log (fst (snd (File_read buf n bytes_read h w1))) = cb_log h @ [Read_called]"
        "cb_userdata (fst (snd (File_read buf n bytes_read h w1))) = u2"
        "snd (snd (File_read buf n bytes_read h w1)) = w2" by simp_all
    }
    {
      fix wcb buf n bytes_written ret u2 w2 e
      assume b: "bytes_written \<noteq> nullptr \<and> write_cb g = Some wcb \<and>
        wcb (cb_userdata h) buf n bytes_written w1 = (ret, u2, w2, e)"
      then have "write_cb h = Some wcb" using sl by simp
      from File_write_dispatch [OF op _ this, of bytes_written buf n w1 ret u2 w2 e] b
      show "fst (File_write buf n bytes_written h w1) = ret"
        "cb_log (fst (snd (File_write buf n bytes_written h w1))) = cb_log h @ [Write_called]"
        "cb_userdata (fst (snd (File_write buf n bytes_written h w1))) = u2"
        "snd (snd (File_write buf n bytes_written h w1)) = w2" by simp_all
    }
    {
      fix scb offset whence new_offset ret u2 w2 e new_pos
      assume b: "seek_cb g = Some scb \<and>
        scb (cb_userdata h) offset whence w1 = ((ret, u2, w2, e), new_pos)"
      then have "seek_cb h = Some scb" using sl by simp
      from File_seek_dispatch [OF op this, of offset whence w1 ret u2 w2 e new_pos new_offset] b
      show "fst (File_seek offset whence new_offset h w1) = ret"
        "cb_log (fst (snd (File_seek offset whence new_offset h w1))) = cb_log h @ [Seek_called]"
        "cb_userdata (fst (snd (File_seek offset whence new_offset h w1))) = u2"
        "fst (snd (snd (File_seek offset whence new_offset h w1))) = w2"
        "snd (snd (snd (File_seek offset whence new_offset h w1))) =
          (if ret = FileStatus.OK \<and> new_offset \<noteq> nullptr then Some new_pos else None)"
        by simp_all
    }
    {
      fix tcb n ret u2 w2 e
      assume b: "truncate_cb g = Some tcb \<and> tcb (cb_userdata h) n w1 = (ret, u2, w2, e)"
      then have "truncate_cb h = Some tcb" using sl by simp
      from File_truncate_dispatch [OF op this, of n w1 ret u2 w2 e] b
      show "fst (File_truncate n h w1) = ret"
        "cb_log (fst (snd (File_truncate n h w1))) = cb_log h @ [Truncate_called]"
        "cb_userdata (fst (snd (File_truncate n h w1))) = u2"
        "snd (snd (File_truncate n h w1)) = w2" by simp_all
    }
    {
      fix ccb ret u2 w2 e
      assume b: "close_cb g = Some ccb \<and> ccb (cb_userdata h) w1 = (ret, u2, w2, e)"
      then have "close_cb h = Some ccb" using sl by simp
      from File_close_dispatch [OF op this, of w1 ret u2 w2 e] b
      show "fst (File_close h w1) = ret"
        "cb_log (fst (snd (File_close h w1))) = cb_log h @ [Close_called]"
        "cb_userdata (fst (snd (File_close h w1))) = u2"
        "snd (snd (File_close h w1)) = w2" by simp_all
    }
  }
next
  assume n: "state f \<noteq> FileState.NEW"
  show "fst (apply_setter s f) = FileStatus.FATAL"
    by (simp add: apply_setter_not_NEW [OF n])
  show "error_code (snd (apply_setter s f)) = FileError_PROGRAMMER_ERROR"
    by (simp add: apply_setter_not_NEW [OF n] ENSURE_STATE_fail_def set_error_def
        set_error_v_def)
  show "state (snd (apply_setter s f)) = FileState.FATAL"
    by (simp add: apply_setter_not_NEW [OF n] ENSURE_STATE_fail_def set_error_def
        set_error_v_def)
  show "snd (apply_setter s f) =
      f\<lparr>state := FileState.FATAL, error_code := FileError_PROGRAMMER_ERROR,
        error_string := error_string (snd (apply_setter s f))\<rparr>"
    by (simp add: apply_setter_not_NEW [OF n] ENSURE_STATE_fail_def set_error_def
        set_error_v_def)
qed


text \<open>
  A run of claim C7: two setters on a new handle return OK; after \<^verbatim>\<open>open()\<close> a read runs
  the read callback that was stored, on the user data that was stored (and counted up by
  the open callback); a setter on the opened handle returns FATAL with PROGRAMMER\_ERROR,
  forces FATAL and leaves the slot as it was.
\<close>

theorem setters_only_in_NEW_witness:
  "state (test_file FileStatus.OK FileStatus.OK) = FileState.NEW \<and>
   fst (apply_setters [Set_close_callback None, Set_callback_data (7, 7)]
      (test_file FileStatus.OK FileStatus.OK)) = [FileStatus.OK, FileStatus.OK] \<and>
   cb_userdata (snd (apply_setters [Set_close_callback None, Set_callback_data (7, 7)]
      (test_file FileStatus.OK FileStatus.OK))) = (7, 7) \<and>
   fst (File_read 1 8 2
      (fst (snd (File_open
         (snd (apply_setters [Set_close_callback None, Set_callback_data (7, 7)]
            (test_file FileStatus.OK FileStatus.OK))) ()))) ()) = FileStatus.FATAL \<and>
   cb_log (fst (snd (File_read 1 8 2
      (fst (snd (File_open
         (snd (apply_setters [Set_close_callback None, Set_callback_data (7, 7)]
            (test_file FileStatus.OK FileStatus.OK))) ()))) ()))) = [Open_called, Read_called] \<and>
   cb_userdata (fst (snd (File_open
         (snd (apply_setters [Set_close_callback None, Set_callback_data (7, 7)]
            (test_file FileStatus.OK FileStatus.OK))) ()))) = (8, 7) \<and>
   state (fst (snd (File_open (test_file FileStatus.OK FileStatus.OK) ()))) = FileState.OPENED \<and>
   fst (apply_setter (Set_close_callback None)
      (fst (snd (File_open (test_file FileStatus.OK FileStatus.OK) ())))) = FileStatus.FATAL \<and>
   error_code (snd (apply_setter (Set_close_callback None)
      (fst (snd (File_open (test_file FileStatus.OK FileStatus.OK) ()))))) = 3 \<and>
   state (snd (apply_setter (Set_close_callback None)
      (fst (snd (File_open (test_file FileStatus.OK FileStatus.OK) ()))))) = FileState.FATAL \<and>
   close_cb (snd (apply_setter (Set_close_callback None)
      (fst (snd (File_open (test_file FileStatus.OK FileStatus.OK) ()))))) =
     Some (counting_close_cb FileStatus.OK)"
proof -
  let ?f = "test_file FileStatus.OK FileStatus.OK"
  let ?ss = "[Set_close_callback None, Set_callback_data (7, 7)] ::
      (fixture, unit, 64 word) setter list"
  let ?g = "snd (apply_setters ?ss ?f)"
  let ?h = "fst (snd (File_open ?g ()))"
  let ?k = "fst (snd (File_open ?f ()))"
  let ?x = "snd (apply_setter (Set_close_callback None) ?k)"
  have new: "state ?f = FileState.NEW" by (simp add: fixture_defs)
  note t = setters_only_in_NEW
    [of ?f "Set_close_callback None" ?ss "counting_open_cb FileStatus.OK" "()"]
  note nb = t [THEN conjunct1, THEN mp, OF new]
  from nb have a0: "apply_setters ?ss ?f =
      (replicate (length ?ss) FileStatus.OK, foldl (\<lambda>g s. store s g) ?f ?ss)"
    by (elim conjE)
  have a: "fst (apply_setters ?ss ?f) = [FileStatus.OK, FileStatus.OK]"
    "cb_userdata ?g = (7, 7)"
    unfolding a0 by simp_all
  have gv: "?g = ?f\<lparr>close_cb := None, cb_userdata := (7, 7)\<rparr>" unfolding a0 by simp
  have og: "?g = snd (apply_setters ?ss ?f) \<and> File_open ?g () = (FileStatus.OK, ?h, ())"
    unfolding gv by (simp add: core_defs fixture_defs)
  have hv: "cb_userdata ?h = (8, 7)" "cb_log ?h = [Open_called]"
    unfolding gv by (simp_all add: core_defs fixture_defs)
  have rd: "(2 :: ptr) \<noteq> nullptr \<and> read_cb ?g = Some failing_io_cb \<and>
      failing_io_cb (cb_userdata ?h) 1 8 2 () =
        (FileStatus.FATAL, (8, 7), (), Some (- 5, ''I/O error''))"
    unfolding hv unfolding gv by (simp add: fixture_defs nullptr_def)
  note d0 = nb [THEN conjunct2, THEN conjunct2, THEN conjunct2, THEN conjunct2,
      THEN conjunct2, THEN conjunct2]
  note d = d0 [THEN spec, THEN spec, THEN spec, THEN mp, OF og]
  note rdd = d [THEN conjunct2, THEN conjunct2, THEN conjunct2, THEN conjunct2,
      THEN conjunct2, THEN conjunct2, THEN conjunct2, THEN conjunct2, THEN conjunct2,
      THEN conjunct1]
  note r = rdd [THEN spec, THEN spec, THEN spec, THEN spec, THEN spec, THEN spec, THEN spec,
      THEN spec, THEN mp, OF rd]
  from r have r1: "fst (File_read 1 8 2 ?h ()) = FileStatus.FATAL" by (rule conjunct1)
  from r have "cb_log (fst (snd (File_read 1 8 2 ?h ()))) = cb_log ?h @ [Read_called]"
    by (elim conjE)
  then have r2: "cb_log (fst (snd (File_read 1 8 2 ?h ()))) = [Open_called, Read_called]"
    by (simp only: hv append_Cons append_Nil)
  have k: "state ?k = FileState.OPENED" "close_cb ?k = Some (counting_close_cb FileStatus.OK)"
    by (simp_all add: core_defs fixture_defs)
  then have kn: "state ?k \<noteq> FileState.NEW" by simp
  note tb = setters_only_in_NEW
    [of ?k "Set_close_callback None" "[]" "counting_open_cb FileStatus.OK" "()"]
  note b = tb [THEN conjunct2, THEN mp, OF kn]
  from b have b1: "fst (apply_setter (Set_close_callback None) ?k) = FileStatus.FATAL"
    by (elim conjE)
  from b have "error_code ?x = FileError_PROGRAMMER_ERROR" by (elim conjE)
  then have b2: "error_code ?x = 3" by (simp only: FileError_PROGRAMMER_ERROR_def)
  from b have b3: "state ?x = FileState.FATAL" by (elim conjE)
  from b have "?x = ?k\<lparr>state := FileState.FATAL, error_code := FileError_PROGRAMMER_ERROR,
      error_string := error_string ?x\<rparr>"
    by (elim conjE)
  then have "close_cb ?x =
      close_cb (?k\<lparr>state := FileState.FATAL, error_code := FileError_PROGRAMMER_ERROR,
        error_string := error_string ?x\<rparr>)"
    by (rule arg_cong)
  moreover have "\<And>(h :: (fixture, unit, 64 word) FilePrivate) a b c.
      close_cb (h\<lparr>state := a, error_code := b, error_string := c\<rparr>) = close_cb h"
    by simp
  ultimately have "close_cb ?x = close_cb ?k" by (rule trans)
  then have b4: "close_cb ?x = Some (counting_close_cb FileStatus.OK)"
    by (simp only: k)
  show ?thesis by (intro conjI) (rule new a r1 r2 hv(1) k(1) b1 b2 b3 b4)+
qed

subsection \<open>read and write\<close>

text \<open>
  Claim C8: on a File in state OPENED, \<^verbatim>\<open>read()\<close> with a null \<^verbatim>\<open>bytes_read\<close> pointer and
  \<^verbatim>\<open>write()\<close> with a null \<^verbatim>\<open>bytes_written\<close> pointer return FATAL, set the error code
  PROGRAMMER_ERROR, force the state FATAL and do not run the read or write callback: no
  callback is logged, and the user data and the world are as before.
\<close>

theorem read_write_null_count_pointer:
  fixes f :: "('u, 'w, 's) FilePrivate"
  assumes "state f = FileState.OPENED"
  shows "fst (File_read buf n nullptr f w) = FileStatus.FATAL \<and>
     error_code (fst (snd (File_read buf n nullptr f w))) = FileError_PROGRAMMER_ERROR \<and>
     state (fst (snd (File_read buf n nullptr f w))) = FileState.FATAL \<and>
     cb_log (fst (snd (File_read buf n nullptr f w))) = cb_log f \<and>
     cb_userdata (fst (snd (File_read buf n nullptr f w))) = cb_userdata f \<and>
     snd (snd (File_read buf n nullptr f w)) = w \<and>
     fst (File_write buf n nullptr f w) = FileStatus.FATAL \<and>
     error_code (fst (snd (File_write buf n nullptr f w))) = FileError_PROGRAMMER_ERROR \<and>
     state (fst (snd (File_write buf n nullptr f w))) = FileState.FATAL \<and>
     cb_log (fst (snd (File_write buf n nullptr f w))) = cb_log f \<and>
     cb_userdata (fst (snd (File_write buf n nullptr f w))) = cb_userdata f \<and>
     snd (snd (File_write buf n nullptr f w)) = w"
  using assms by (simp add: core_defs le_FATAL_iff)

text \<open>
  A run of claim C8 on an opened handle with read and write callbacks registered: after
  \<^verbatim>\<open>read(buf, 8, NULL)\<close> the log still holds the open callback only.
\<close>

theorem read_write_null_count_pointer_witness:
  "state (fst (snd (File_open (test_file FileStatus.OK FileStatus.OK) ()))) = FileState.OPENED \<and>
   fst (File_read 1 8 0 (fst (snd (File_open (test_file FileStatus.OK FileStatus.OK) ()))) ()) =
     FileStatus.FATAL \<and>
   error_code (fst (snd (File_read 1 8 0
      (fst (snd (File_open (test_file FileStatus.OK FileStatus.OK) ()))) ()))) = 3 \<and>
   cb_log (fst (snd (File_write 1 8 0
      (fst (snd (File_open (test_file FileStatus.OK FileStatus.OK) ()))) ()))) = [Open_called]"
proof -
  let ?g = "fst (snd (File_open (test_file FileStatus.OK FileStatus.OK) ()))"
  have g: "state ?g = FileState.OPENED" "cb_log ?g = [Open_called]"
    by (simp_all add: core_defs fixture_defs)
  from read_write_null_count_pointer [OF g(1), of 1 8 "()"] g show ?thesis
    by (simp add: nullptr_def FileError_PROGRAMMER_ERROR_def)
qed

section \<open>Properties of open with callbacks\<close>

lemma Min8:
  fixes r1 :: "'a :: linorder"
  shows "Min (set [r1, r2, r3, r4, r5, r6, r7, r8]) =
    min r8 (min r7 (min r6 (min r5 (min r4 (min r3 (min r2 r1))))))"
  by (simp only: Min.set_eq_fold fold_simps id_apply comp_apply)

text \<open>
  Claim C9: for every six callback values, every user data value and a File in any state,
  \<^verbatim>\<open>file_open_callbacks\<close> calls the seven setters and then \<^verbatim>\<open>open()\<close>, each on the handle
  the previous call left, and returns the minimum of the eight results in the order
  OK > RETRY > UNSUPPORTED > WARN > FAILED > FATAL.
\<close>

theorem file_open_callbacks_minimum:
  fixes fl :: "('u, 'w, 's) FilePrivate"
  assumes "File_set_open_callback ocb fl = (r1, f1)"
    and "File_set_close_callback ccb f1 = (r2, f2)"
    and "File_set_read_callback rcb f2 = (r3, f3)"
    and "File_set_write_callback wcb f3 = (r4, f4)"
    and "File_set_seek_callback scb f4 = (r5, f5)"
    and "File_set_truncate_callback tcb f5 = (r6, f6)"
    and "File_set_callback_data userdata f6 = (r7, f7)"
    and "File_open f7 w = (r8, f8, w8)"
  shows "file_open_callbacks fl ocb ccb rcb wcb scb tcb userdata w =
          (Min (set [r1, r2, r3, r4, r5, r6, r7, r8]), f8, w8)"
  unfolding file_open_callbacks_def Min8
  apply (simp only: Let_def assms prod.case keep_lower_min)
  apply (simp only: min_absorb1 [OF OK_greatest])
  done

text \<open>
  A run of claim C9 on a new handle: the seven setters return OK, the open callback
  returns WARN, and WARN is the result.
\<close>

theorem file_open_callbacks_minimum_witness:
  "fst (file_open_callbacks (File_new (0, 0) :: (fixture, unit, 64 word) FilePrivate)
      (Some (counting_open_cb FileStatus.WARN)) (Some (counting_close_cb FileStatus.OK))
      None None None None (0, 0) ()) = FileStatus.WARN"
proof -
  let ?f0 = "File_new (0, 0) :: (fixture, unit, 64 word) FilePrivate"
  let ?o = "Some (counting_open_cb FileStatus.WARN)"
  let ?c = "Some (counting_close_cb FileStatus.OK)"
  let ?f1 = "?f0\<lparr>open_cb := ?o\<rparr>"
  let ?f2 = "?f1\<lparr>close_cb := ?c\<rparr>"
  let ?f7 = "?f2\<lparr>read_cb := None, write_cb := None, seek_cb := None, truncate_cb := None,
      cb_userdata := (0, 0)\<rparr>"
  have 1: "File_set_open_callback ?o ?f0 = (FileStatus.OK, ?f1)"
    by (simp add: setter_defs File_new_def)
  have 2: "File_set_close_callback ?c ?f1 = (FileStatus.OK, ?f2)"
    by (simp add: setter_defs File_new_def)
  have 3: "File_set_read_callback None ?f2 = (FileStatus.OK, ?f2\<lparr>read_cb := None\<rparr>)"
    by (simp add: setter_defs File_new_def)
  have 4: "File_set_write_callback None (?f2\<lparr>read_cb := None\<rparr>) =
      (FileStatus.OK, ?f2\<lparr>read_cb := None, write_cb := None\<rparr>)"
    by (simp add: setter_defs File_new_def)
  have 5: "File_set_seek_callback None (?f2\<lparr>read_cb := None, write_cb := None\<rparr>) =
      (FileStatus.OK, ?f2\<lparr>read_cb := None, write_cb := None, seek_cb := None\<rparr>)"
    by (simp add: setter_defs File_new_def)
  have 6: "File_set_truncate_callback None
        (?f2\<lparr>read_cb := None, write_cb := None, seek_cb := None\<rparr>) =
      (FileStatus.OK,
       ?f2\<lparr>read_cb := None, write_cb := None, seek_cb := None, truncate_cb := None\<rparr>)"
    by (simp add: setter_defs File_new_def)
  have 7: "File_set_callback_data (0, 0)
        (?f2\<lparr>read_cb := None, write_cb := None, seek_cb := None, truncate_cb := None\<rparr>) =
      (FileStatus.OK, ?f7)"
    by (simp add: setter_defs File_new_def)
  have 8: "File_open ?f7 () =
      (FileStatus.WARN, fst (snd (File_open ?f7 ())), snd (snd (File_open ?f7 ())))"
    by (simp add: core_defs File_new_def counting_open_cb_def counting_close_cb_def
        less_eq_FileStatus_def)
  have m: "Min (set [FileStatus.OK, FileStatus.OK, FileStatus.OK, FileStatus.OK, FileStatus.OK,
      FileStatus.OK, FileStatus.OK, FileStatus.WARN]) = FileStatus.WARN"
    unfolding Min8 by (simp add: min_def less_eq_FileStatus_def)
  from file_open_callbacks_minimum [OF 1 2 3 4 5 6 7 8] m show ?thesis by simp
qed

section \<open>Properties of the backends\<close>

lemmas backend_fixture_defs = dir_stat_def dir_fd_funcs_def dir_posix_funcs_def
  dir_win32_funcs_def fd_dir_file_def posix_dir_file_def win32_dir_ctx_def win32_world_def
  File_new_def S_ISDIR_def S_ISREG_def S_ISBLK_def S_IFMT_def S_IFDIR_def S_IFREG_def S_IFBLK_def

subsection \<open>Opening a directory\<close>

lemma fd_open_cb_directory:
  assumes acq: "filename ctx = [] \<and> fd1 = fd ctx \<and> w1 = w \<or>
      filename ctx \<noteq> [] \<and>
      fn_open (funcs ctx) (filename ctx) (flags ctx) DEFAULT_MODE w = (fd1, w1) \<and> 0 \<le> fd1"
    and st: "fn_fstat (funcs ctx) fd1 w1 = ((r, sb), w2)" "0 \<le> r" "S_ISDIR (st_mode sb)"
  shows "fd_open_cb ctx w =
     (FileStatus.FAILED, ctx\<lparr>fd := fd1\<rparr>, w2, Some (- EISDIR, ''Cannot open directory''))"
  using acq st by (auto simp: fd_open_cb_def)

lemma fd_close_cb_quiet:
  assumes "owned ctx \<and> 0 \<le> fd ctx \<longrightarrow> 0 \<le> fst (fn_close (funcs ctx) (fd ctx) w)"
  shows "\<exists>w'. fd_close_cb ctx w = (FileStatus.OK, ctx, w', None)"
  using assms by (auto simp: fd_close_cb_def split: prod.splits)

lemma posix_open_cb_directory:
  assumes acq: "filename' ctx = [] \<and> fp1 = fp ctx \<and> w1 = w \<or>
      filename' ctx \<noteq> [] \<and>
      fn_fopen (funcs' ctx) (filename' ctx) (mode ctx) w = (fp1, w1) \<and> fp1 \<noteq> nullptr"
    and no: "fn_fileno (funcs' ctx) fp1 w1 = (fd1, w2)" "0 \<le> fd1"
    and st: "fn_fstat' (funcs' ctx) fd1 w2 = ((r, sb), w3)" "0 \<le> r" "S_ISDIR (st_mode sb)"
  shows "posix_open_cb ctx w =
     (FileStatus.FAILED, ctx\<lparr>fp := fp1\<rparr>, w3, Some (- EISDIR, ''Cannot open directory''))"
  using acq no st by (auto simp: posix_open_cb_def)

lemma posix_close_cb_quiet:
  assumes "owned' ctx \<and> fp ctx \<noteq> nullptr \<longrightarrow> fst (fn_fclose (funcs' ctx) (fp ctx) w) \<noteq> EOF"
  shows "\<exists>w'. posix_close_cb ctx w = (FileStatus.OK, ctx, w', None)"
  using assms by (auto simp: posix_close_cb_def split: prod.splits)

text \<open>
  The platform-handle open callback has two outcomes only: OK without an error, or FAILED
  with the negated last-error code of \<^verbatim>\<open>CreateFileW\<close>. It never looks at what the handle
  refers to.
\<close>

lemma win32_open_cb_outcomes:
  "(\<exists>ctx' w'. win32_open_cb ctx w = (FileStatus.OK, ctx', w', None)) \<or>
   (\<exists>ctx' w'. win32_open_cb ctx w =
      (FileStatus.FAILED, ctx', w', Some (sint (- last_error w'), ''Failed to open file'')))"
  by (auto simp: win32_open_cb_def split: prod.splits)

text \<open>
  When the open callback fails with an error and the close callback that \<^verbatim>\<open>open()\<close> then
  runs sets none, the open callback's error is the handle's last error.
\<close>

lemma File_open_failed_quiet_close:
  fixes f :: "('u, 'w, 's) FilePrivate"
  assumes new: "state f = FileState.NEW"
    and o: "open_cb f = Some ocb" and c: "close_cb f = Some ccb"
    and r: "ocb (cb_userdata f) w = (FileStatus.FAILED, u1, w1, Some (code, msg))"
    and q: "ccb u1 w1 = (rc, u2, w2, None)"
  shows "File_open f w =
     (FileStatus.FAILED,
      f\<lparr>cb_userdata := u2, error_code := code, error_string := msg,
        cb_log := cb_log f @ [Open_called, Close_called]\<rparr>, w2)"
  using assms by (simp add: core_defs less_eq_FileStatus_def)

text \<open>
  Claim C4, as stated, fails: not every backend refuses a directory. The platform-handle
  open callback makes no stat call at all (its system-call interface has none): with
  \<^verbatim>\<open>CreateFileW\<close> returning a handle it returns OK and sets no error, whatever the handle
  refers to. The buffered-stream open callback stats only when \<^verbatim>\<open>fileno\<close> yields a
  descriptor: with \<^verbatim>\<open>fileno\<close> returning -1 and an \<^verbatim>\<open>fstat\<close> that reports a directory,
  \<^verbatim>\<open>open()\<close> returns OK, the handle is OPENED and no error is stored.
\<close>

theorem open_directory_counterexample:
  "win32_open_cb win32_dir_ctx win32_world =
     (FileStatus.OK, win32_dir_ctx\<lparr>handle := 5\<rparr>, win32_world, None) \<and>
   S_ISDIR (st_mode (snd (fst (fn_fstat' (dir_posix_funcs (- 1)) 3 \<lparr>errno = 0\<rparr>)))) \<and>
   posix_open_cb (cb_userdata (posix_dir_file (- 1))) \<lparr>errno = 0\<rparr> =
     (FileStatus.OK, (cb_userdata (posix_dir_file (- 1)))\<lparr>fp := 7\<rparr>, \<lparr>errno = 0\<rparr>, None) \<and>
   fst (File_open (posix_dir_file (- 1)) \<lparr>errno = 0\<rparr>) = FileStatus.OK \<and>
   state (fst (snd (File_open (posix_dir_file (- 1)) \<lparr>errno = 0\<rparr>))) = FileState.OPENED \<and>
   error_code (fst (snd (File_open (posix_dir_file (- 1)) \<lparr>errno = 0\<rparr>))) = FileError_NONE"
  by (simp add: win32_open_cb_def posix_open_cb_def backend_fixture_defs core_defs
      INVALID_HANDLE_VALUE_def nullptr_def)

text \<open>
  Claim C4, amended: for the descriptor backend, when the descriptor is at hand (supplied
  by the caller, or the native open succeeded) and \<^verbatim>\<open>fstat\<close> succeeds and reports a
  directory, the open callback fails with FAILED and the error code \<^verbatim>\<open>-EISDIR\<close>; for the
  buffered-stream backend the same holds when, in addition, \<^verbatim>\<open>fileno\<close> yields a
  non-negative descriptor; and in both cases, when the close callback that \<^verbatim>\<open>open()\<close> then
  runs does not fail (the resource is not owned, or releasing it succeeds), \<^verbatim>\<open>open()\<close>
  returns FAILED and \<^verbatim>\<open>-EISDIR\<close> is the handle's last error. (The platform-handle backend
  makes no directory check.)
\<close>

theorem open_directory_fails_EISDIR:
  fixes f :: "('x FdFileCtx, 'x sys_scheme, 's) FilePrivate"
    and g :: "('y PosixFileCtx, 'y sys_scheme, 's) FilePrivate"
  assumes f: "state f = FileState.NEW" "open_cb f = Some fd_open_cb"
      "close_cb f = Some fd_close_cb"
    and acq: "filename (cb_userdata f) = [] \<and> fd1 = fd (cb_userdata f) \<and> w1 = w \<or>
      filename (cb_userdata f) \<noteq> [] \<and>
      fn_open (funcs (cb_userdata f)) (filename (cb_userdata f)) (flags (cb_userdata f))
        DEFAULT_MODE w = (fd1, w1) \<and> 0 \<le> fd1"
    and st: "fn_fstat (funcs (cb_userdata f)) fd1 w1 = ((r, sb), w2)" "0 \<le> r"
      "S_ISDIR (st_mode sb)"
    and cl: "owned (cb_userdata f) \<and> 0 \<le> fd1 \<longrightarrow>
      0 \<le> fst (fn_close (funcs (cb_userdata f)) fd1 w2)"
    and g: "state g = FileState.NEW" "open_cb g = Some posix_open_cb"
      "close_cb g = Some posix_close_cb"
    and acq': "filename' (cb_userdata g) = [] \<and> fp1 = fp (cb_userdata g) \<and> v1 = v \<or>
      filename' (cb_userdata g) \<noteq> [] \<and>
      fn_fopen (funcs' (cb_userdata g)) (filename' (cb_userdata g)) (mode (cb_userdata g)) v =
        (fp1, v1) \<and> fp1 \<noteq> nullptr"
    and no': "fn_fileno (funcs' (cb_userdata g)) fp1 v1 = (fd2, v2)" "0 \<le> fd2"
    and st': "fn_fstat' (funcs' (cb_userdata g)) fd2 v2 = ((r', sb'), v3)" "0 \<le> r'"
      "S_ISDIR (st_mode sb')"
    and cl': "owned' (cb_userdata g) \<and> fp1 \<noteq> nullptr \<longrightarrow>
      fst (fn_fclose (funcs' (cb_userdata g)) fp1 v3) \<noteq> EOF"
  shows "fd_open_cb (cb_userdata f) w =
       (FileStatus.FAILED, (cb_userdata f)\<lparr>fd := fd1\<rparr>, w2,
        Some (- EISDIR, ''Cannot open directory'')) \<and>
     fst (File_open f w) = FileStatus.FAILED \<and>
     error_code (fst (snd (File_open f w))) = - EISDIR \<and>
     posix_open_cb (cb_userdata g) v =
       (FileStatus.FAILED, (cb_userdata g)\<lparr>fp := fp1\<rparr>, v3,
        Some (- EISDIR, ''Cannot open directory'')) \<and>
     fst (File_open g v) = FileStatus.FAILED \<and>
     error_code (fst (snd (File_open g v))) = - EISDIR"
proof -
  note o = fd_open_cb_directory [OF acq st]
  from cl have "owned ((cb_userdata f)\<lparr>fd := fd1\<rparr>) \<and> 0 \<le> fd ((cb_userdata f)\<lparr>fd := fd1\<rparr>) \<longrightarrow>
      0 \<le> fst (fn_close (funcs ((cb_userdata f)\<lparr>fd := fd1\<rparr>))
        (fd ((cb_userdata f)\<lparr>fd := fd1\<rparr>)) w2)"
    by simp
  from fd_close_cb_quiet [OF this] obtain w' where
    c: "fd_close_cb ((cb_userdata f)\<lparr>fd := fd1\<rparr>) w2 =
      (FileStatus.OK, (cb_userdata f)\<lparr>fd := fd1\<rparr>, w', None)" by blast
  note F = File_open_failed_quiet_close [OF f o c]
  note o' = posix_open_cb_directory [OF acq' no' st']
  from cl' have "owned' ((cb_userdata g)\<lparr>fp := fp1\<rparr>) \<and>
      fp ((cb_userdata g)\<lparr>fp := fp1\<rparr>) \<noteq> nullptr \<longrightarrow>
      fst (fn_fclose (funcs' ((cb_userdata g)\<lparr>fp := fp1\<rparr>))
        (fp ((cb_userdata g)\<lparr>fp := fp1\<rparr>)) v3) \<noteq> EOF"
    by simp
  from posix_close_cb_quiet [OF this] obtain v' where
    c': "posix_close_cb ((cb_userdata g)\<lparr>fp := fp1\<rparr>) v3 =
      (FileStatus.OK, (cb_userdata g)\<lparr>fp := fp1\<rparr>, v', None)" by blast
  note G = File_open_failed_quiet_close [OF g o' c']
  show ?thesis by (simp add: o o' F G)
qed

text \<open>
  A run of the amended claim C4: a path that opens as descriptor 3, respectively as stream
  7 with descriptor 3, and stats as a directory. Both handles fail to open with FAILED
  and error code -21.
\<close>

theorem open_directory_fails_EISDIR_witness:
  "state fd_dir_file = FileState.NEW \<and>
   S_ISDIR (st_mode dir_stat) \<and>
   fst (File_open fd_dir_file \<lparr>errno = 0\<rparr>) = FileStatus.FAILED \<and>
   error_code (fst (snd (File_open fd_dir_file \<lparr>errno = 0\<rparr>))) = - 21 \<and>
   fst (File_open (posix_dir_file 3) \<lparr>errno = 0\<rparr>) = FileStatus.FAILED \<and>
   error_code (fst (snd (File_open (posix_dir_file 3) \<lparr>errno = 0\<rparr>))) = - 21"
proof -
  let ?w = "\<lparr>errno = 0\<rparr>"
  have f: "state fd_dir_file = FileState.NEW" "open_cb fd_dir_file = Some fd_open_cb"
    "close_cb fd_dir_file = Some fd_close_cb"
    by (simp_all add: fd_dir_file_def File_new_def)
  have acq: "filename (cb_userdata fd_dir_file) = [] \<and> 3 = fd (cb_userdata fd_dir_file) \<and>
      ?w = ?w \<or>
      filename (cb_userdata fd_dir_file) \<noteq> [] \<and>
      fn_open (funcs (cb_userdata fd_dir_file)) (filename (cb_userdata fd_dir_file))
        (flags (cb_userdata fd_dir_file)) DEFAULT_MODE ?w = (3, ?w) \<and> (0 :: int) \<le> 3"
    by (simp add: fd_dir_file_def File_new_def dir_fd_funcs_def)
  have st: "fn_fstat (funcs (cb_userdata fd_dir_file)) 3 ?w = ((0, dir_stat), ?w)"
    "(0 :: int) \<le> 0" "S_ISDIR (st_mode dir_stat)"
    by (simp_all add: backend_fixture_defs)
  have cl: "owned (cb_userdata fd_dir_file) \<and> (0 :: int) \<le> 3 \<longrightarrow>
      0 \<le> fst (fn_close (funcs (cb_userdata fd_dir_file)) 3 ?w)"
    by (simp add: backend_fixture_defs)
  have g: "state (posix_dir_file 3) = FileState.NEW"
    "open_cb (posix_dir_file 3) = Some posix_open_cb"
    "close_cb (posix_dir_file 3) = Some posix_close_cb"
    by (simp_all add: posix_dir_file_def File_new_def)
  have acq': "filename' (cb_userdata (posix_dir_file 3)) = [] \<and>
      7 = fp (cb_userdata (posix_dir_file 3)) \<and> ?w = ?w \<or>
      filename' (cb_userdata (posix_dir_file 3)) \<noteq> [] \<and>
      fn_fopen (funcs' (cb_userdata (posix_dir_file 3))) (filename' (cb_userdata (posix_dir_file 3)))
        (mode (cb_userdata (posix_dir_file 3))) ?w = (7, ?w) \<and> 7 \<noteq> nullptr"
    by (simp add: posix_dir_file_def File_new_def dir_posix_funcs_def nullptr_def)
  have no': "fn_fileno (funcs' (cb_userdata (posix_dir_file 3))) 7 ?w = (3, ?w)" "(0 :: int) \<le> 3"
    by (simp_all add: backend_fixture_defs)
  have st': "fn_fstat' (funcs' (cb_userdata (posix_dir_file 3))) 3 ?w = ((0, dir_stat), ?w)"
    by (simp add: backend_fixture_defs)
  have cl': "owned' (cb_userdata (posix_dir_file 3)) \<and> 7 \<noteq> nullptr \<longrightarrow>
      fst (fn_fclose (funcs' (cb_userdata (posix_dir_file 3))) 7 ?w) \<noteq> EOF"
    by (simp add: backend_fixture_defs EOF_def)
  from open_directory_fails_EISDIR [OF f acq st cl g acq' no' st' st(2) st(3) cl'] f(1) st(3)
  show ?thesis by (simp add: EISDIR_def)
qed

subsection \<open>Writing past the end of a dynamic memory buffer\<close>

lemma uint_SIZE_MAX_minus:
  "uint (SIZE_MAX - (p :: 'a::len word)) = 2 ^ LENGTH('a) - 1 - uint p"
proof -
  have m: "uint (- 1 :: 'a word) = 2 ^ LENGTH('a) - 1"
    by (simp add: unsigned_minus_1_eq_mask mask_eq_exp_minus_1)
  have "uint p < 2 ^ LENGTH('a)" by (rule uint_lt2p)
  with m have "uint p \<le> uint (- 1 :: 'a word)" by simp
  then show ?thesis unfolding SIZE_MAX_def by (simp only: uint_sub_if' m if_True)
qed

text \<open>The code's overflow test \<^verbatim>\<open>ctx->pos > SIZE_MAX - size\<close> is exact.\<close>

lemma write_overflow_iff:
  "(p > SIZE_MAX - (n :: 'a::len word)) = (2 ^ LENGTH('a) \<le> unat p + unat n)"
proof -
  have "(p > SIZE_MAX - n) = (2 ^ LENGTH('a) - 1 - uint n < uint p)"
    by (simp only: word_less_alt uint_SIZE_MAX_minus)
  also have "\<dots> = ((2::int) ^ LENGTH('a) \<le> int (unat p) + int (unat n))"
    by (simp only: uint_nat) linarith
  also have "\<dots> = (int (2 ^ LENGTH('a)) \<le> int (unat p + unat n))"
    by simp
  also have "\<dots> = (2 ^ LENGTH('a) \<le> unat p + unat n)"
    by (rule of_nat_le_iff)
  finally show ?thesis .
qed

lemma take_zero_fill:
  "p \<le> d \<Longrightarrow>
     take p (old @ replicate (d - length old) (0 :: 8 word)) =
     take p (old @ replicate (p - length old) 0)"
  by (simp add: min_def)

text \<open>
  The block after \<^verbatim>\<open>realloc\<close>, \<^verbatim>\<open>memset\<close> and \<^verbatim>\<open>memcpy\<close>: the old bytes, zeros up to the
  position, the bytes written.
\<close>

lemma grow_contents:
  fixes old :: "8 word list"
  assumes "length old < p + k" "length src = k"
  shows "memcpy_at
       (memset_at (take (p + k) old @ map junk [length old..<p + k]) (length old) 0
          (p + k - length old))
       p src =
     take p (old @ replicate (p - length old) 0) @ src"
proof -
  have 1: "memset_at (take (p + k) old @ map junk [length old..<p + k]) (length old) 0
      (p + k - length old) = old @ replicate (p + k - length old) 0"
    using assms by (simp add: memset_at_def)
  have 2: "memcpy_at (old @ replicate (p + k - length old) 0) p src =
      take p (old @ replicate (p + k - length old) 0) @ src"
    using assms by (simp add: memcpy_at_def)
  show ?thesis unfolding 1 2 using take_zero_fill [of p "p + k" old] by simp
qed

lemma write_growth_arith:
  fixes ctx :: "'a::len MemoryFileCtx"
  assumes fit: "unat (pos ctx) + unat n < 2 ^ LENGTH('a)"
    and big: "unat (size' ctx) < unat (pos ctx) + unat n"
  shows "\<not> pos ctx > SIZE_MAX - n" "unat (pos ctx + n) = unat (pos ctx) + unat n"
    "pos ctx + n > size' ctx"
    "unat (pos ctx + n - size' ctx) = unat (pos ctx) + unat n - unat (size' ctx)"
proof -
  show "\<not> pos ctx > SIZE_MAX - n" using fit by (simp add: write_overflow_iff)
  show u: "unat (pos ctx + n) = unat (pos ctx) + unat n"
    using fit by (simp add: unat_add_lem [THEN iffD1])
  show l: "pos ctx + n > size' ctx" using big u by (simp add: word_less_nat_alt)
  then have "size' ctx \<le> pos ctx + n" by simp
  then show "unat (pos ctx + n - size' ctx) = unat (pos ctx) + unat n - unat (size' ctx)"
    using u by (simp add: unat_sub)
qed

lemma memory_write_cb_grow:
  fixes ctx :: "'a::len MemoryFileCtx" and m :: "'a memory"
  assumes dyn: "\<not> fixed_size ctx"
    and wf: "length (bytes_at m (data ctx)) = unat (size' ctx)"
    and buf: "unat n \<le> length buf"
    and fit: "unat (pos ctx) + unat n < 2 ^ LENGTH('a)"
    and big: "unat (size' ctx) < unat (pos ctx) + unat n"
    and ok: "realloc_next m \<noteq> nullptr"
  shows "\<exists>m'. memory_write_cb ctx buf n m =
       ((FileStatus.OK,
         ctx\<lparr>data := realloc_next m, size' := pos ctx + n, pos := pos ctx + n\<rparr>, m', None),
        Some n) \<and>
     bytes_at m' (realloc_next m) =
       take (unat (pos ctx))
         (bytes_at m (data ctx) @ replicate (unat (pos ctx) - unat (size' ctx)) 0) @
       take (unat n) buf \<and>
     (data_ptr ctx \<noteq> nullptr \<longrightarrow> ptr_slots m' (data_ptr ctx) = realloc_next m) \<and>
     (size_ptr ctx \<noteq> nullptr \<longrightarrow> size_slots m' (size_ptr ctx) = pos ctx + n) \<and>
     (data_ptr ctx = nullptr \<longrightarrow> ptr_slots m' = ptr_slots m) \<and>
     (size_ptr ctx = nullptr \<longrightarrow> size_slots m' = size_slots m)"
proof -
  note f = write_growth_arith [OF fit big]
  have len: "length (take (unat n) buf) = unat n" using buf by simp
  have old: "length (bytes_at m (data ctx)) < unat (pos ctx) + unat n" using wf big by simp
  note g = grow_contents [OF old len, of "realloc_junk m"]
  show ?thesis
    using dyn ok f g wf
    by (simp add: memory_write_cb_def realloc_def memory_write_copy_def Let_def)
qed

lemma memory_write_cb_realloc_fails:
  fixes ctx :: "'a::len MemoryFileCtx" and m :: "'a memory"
  assumes dyn: "\<not> fixed_size ctx"
    and fit: "unat (pos ctx) + unat n < 2 ^ LENGTH('a)"
    and big: "unat (size' ctx) < unat (pos ctx) + unat n"
    and fail: "realloc_next m = nullptr"
  shows "memory_write_cb ctx buf n m =
     ((FileStatus.FAILED, ctx, m\<lparr>errno := ENOMEM\<rparr>,
       Some (- ENOMEM, ''Failed to enlarge buffer'')), None)"
  using dyn fail write_growth_arith [OF fit big]
  by (simp add: memory_write_cb_def realloc_def Let_def)

text \<open>
  Claim C5, as stated, fails: a write past the end of a dynamic buffer, with no overflow,
  does not always grow the buffer. When \<^verbatim>\<open>realloc\<close> fails the callback returns FAILED with
  the negated \<^verbatim>\<open>errno\<close> as error code; the buffer, its size and the position stay as they
  were and nothing is written. Here: a 2-byte buffer, position 4, one byte to write.
\<close>

theorem memory_write_realloc_failure_counterexample:
  "\<not> fixed_size (mem_ctx :: 64 MemoryFileCtx) \<and>
   unat (pos (mem_ctx :: 64 MemoryFileCtx)) + unat (1 :: 64 word) < 2 ^ 64 \<and>
   unat (size' (mem_ctx :: 64 MemoryFileCtx)) <
     unat (pos (mem_ctx :: 64 MemoryFileCtx)) + unat (1 :: 64 word) \<and>
   memory_write_cb (mem_ctx :: 64 MemoryFileCtx) [99] 1 (mem_world 0) =
     ((FileStatus.FAILED, mem_ctx, (mem_world 0)\<lparr>errno := 12\<rparr>,
       Some (- 12, ''Failed to enlarge buffer'')), None) \<and>
   size' (mem_ctx :: 64 MemoryFileCtx) = 2"
  by (simp add: memory_write_cb_def realloc_def mem_ctx_def mem_world_def SIZE_MAX_def
      nullptr_def ENOMEM_def)

text \<open>
  Claim C5, amended: for the dynamic memory backend, with \<^verbatim>\<open>size_t\<close> of any width, a
  buffer as large as the context says and \<^verbatim>\<open>size\<close> readable bytes at \<^verbatim>\<open>buf\<close>:
  if \<^verbatim>\<open>pos + size\<close> overflows \<^verbatim>\<open>size_t\<close> the write fails with FAILED and error code
  INVALID_ARGUMENT, before any resizing (context and memory unchanged); if it does not
  overflow and exceeds the current size, then, when the reallocation succeeds, the buffer
  grows to exactly \<^verbatim>\<open>pos + size\<close>, holds the old bytes, zeros in the gap from the old size
  to \<^verbatim>\<open>pos\<close> and the \<^verbatim>\<open>size\<close> bytes written, all of which are reported as written, and the
  new data pointer and size are stored through the caller's pointer and size slots when
  present; when the reallocation fails, the write fails with FAILED and the negated
  \<^verbatim>\<open>errno\<close>, and context and buffer are unchanged.
\<close>

theorem memory_write_cb_dynamic_growth:
  fixes ctx :: "'a::len MemoryFileCtx" and m :: "'a memory"
  assumes dyn: "\<not> fixed_size ctx"
    and wf: "length (bytes_at m (data ctx)) = unat (size' ctx)"
    and buf: "unat n \<le> length buf"
  shows
    "(2 ^ LENGTH('a) \<le> unat (pos ctx) + unat n \<longrightarrow>
        memory_write_cb ctx buf n m =
          ((FileStatus.FAILED, ctx, m,
            Some (FileError_INVALID_ARGUMENT, ''Write would overflow size_t'')), None)) \<and>
     (unat (pos ctx) + unat n < 2 ^ LENGTH('a) \<and>
      unat (size' ctx) < unat (pos ctx) + unat n \<longrightarrow>
        (realloc_next m = nullptr \<longrightarrow>
           memory_write_cb ctx buf n m =
             ((FileStatus.FAILED, ctx, m\<lparr>errno := ENOMEM\<rparr>,
               Some (- ENOMEM, ''Failed to enlarge buffer'')), None)) \<and>
        (realloc_next m \<noteq> nullptr \<longrightarrow>
           unat (pos ctx + n) = unat (pos ctx) + unat n \<and>
           (\<exists>m'. memory_write_cb ctx buf n m =
               ((FileStatus.OK,
                 ctx\<lparr>data := realloc_next m, size' := pos ctx + n, pos := pos ctx + n\<rparr>,
                 m', None),
                Some n) \<and>
              bytes_at m' (realloc_next m) =
                take (unat (pos ctx))
                  (bytes_at m (data ctx) @
                   replicate (unat (pos ctx) - unat (size' ctx)) 0) @
                take (unat n) buf \<and>
              (data_ptr ctx \<noteq> nullptr \<longrightarrow> ptr_slots m' (data_ptr ctx) = realloc_next m) \<and>
              (size_ptr ctx \<noteq> nullptr \<longrightarrow> size_slots m' (size_ptr ctx) = pos ctx + n) \<and>
              (data_ptr ctx = nullptr \<longrightarrow> ptr_slots m' = ptr_slots m) \<and>
              (size_ptr ctx = nullptr \<longrightarrow> size_slots m' = size_slots m))))"
proof (intro conjI impI)
  assume "2 ^ LENGTH('a) \<le> unat (pos ctx) + unat n"
  then show "memory_write_cb ctx buf n m =
      ((FileStatus.FAILED, ctx, m,
        Some (FileError_INVALID_ARGUMENT, ''Write would overflow size_t'')), None)"
    by (simp add: memory_write_cb_def write_overflow_iff)
next
  assume a: "unat (pos ctx) + unat n < 2 ^ LENGTH('a) \<and>
      unat (size' ctx) < unat (pos ctx) + unat n"
  then have fit: "unat (pos ctx) + unat n < 2 ^ LENGTH('a)"
    and big: "unat (size' ctx) < unat (pos ctx) + unat n" by simp_all
  {
    assume "realloc_next m = nullptr"
    then show "memory_write_cb ctx buf n m =
        ((FileStatus.FAILED, ctx, m\<lparr>errno := ENOMEM\<rparr>,
          Some (- ENOMEM, ''Failed to enlarge buffer'')), None)"
      by (rule memory_write_cb_realloc_fails [OF dyn fit big])
  next
    assume ok: "realloc_next m \<noteq> nullptr"
    show "unat (pos ctx + n) = unat (pos ctx) + unat n"
      by (rule write_growth_arith(2) [OF fit big])
    show "\<exists>m'. memory_write_cb ctx buf n m =
           ((FileStatus.OK,
             ctx\<lparr>data := realloc_next m, size' := pos ctx + n, pos := pos ctx + n\<rparr>,
             m', None),
            Some n) \<and>
          bytes_at m' (realloc_next m) =
            take (unat (pos ctx))
              (bytes_at m (data ctx) @
               replicate (unat (pos ctx) - unat (size' ctx)) 0) @
            take (unat n) buf \<and>
          (data_ptr ctx \<noteq> nullptr \<longrightarrow> ptr_slots m' (data_ptr ctx) = realloc_next m) \<and>
          (size_ptr ctx \<noteq> nullptr \<longrightarrow> size_slots m' (size_ptr ctx) = pos ctx + n) \<and>
          (data_ptr ctx = nullptr \<longrightarrow> ptr_slots m' = ptr_slots m) \<and>
          (size_ptr ctx = nullptr \<longrightarrow> size_slots m' = size_slots m)"
      by (rule memory_write_cb_grow [OF dyn wf buf fit big ok])
  }
qed

text \<open>
  A run of the amended claim C5: the 2-byte buffer \<open>[97, 98]\<close>, position 4, the byte 99
  written, the allocator answering address 2. The new block is \<open>[97, 98, 0, 0, 99]\<close>, the
  caller's size variable holds 5 and the caller's pointer variable the new address.
\<close>

theorem memory_write_cb_dynamic_growth_witness:
  "\<not> fixed_size (mem_ctx :: 64 MemoryFileCtx) \<and>
   fst (fst (memory_write_cb (mem_ctx :: 64 MemoryFileCtx) [99] 1 (mem_world 2))) =
     FileStatus.OK \<and>
   snd (memory_write_cb (mem_ctx :: 64 MemoryFileCtx) [99] 1 (mem_world 2)) = Some 1 \<and>
   size' (fst (snd (fst (memory_write_cb (mem_ctx :: 64 MemoryFileCtx) [99] 1 (mem_world 2))))) =
     5 \<and>
   bytes_at (fst (snd (snd (fst
      (memory_write_cb (mem_ctx :: 64 MemoryFileCtx) [99] 1 (mem_world 2)))))) 2 =
     [97, 98, 0, 0, 99] \<and>
   size_slots (fst (snd (snd (fst
      (memory_write_cb (mem_ctx :: 64 MemoryFileCtx) [99] 1 (mem_world 2)))))) 11 = 5 \<and>
   ptr_slots (fst (snd (snd (fst
      (memory_write_cb (mem_ctx :: 64 MemoryFileCtx) [99] 1 (mem_world 2)))))) 10 = 2"
proof -
  let ?c = "mem_ctx :: 64 MemoryFileCtx"
  let ?m = "mem_world 2 :: 64 memory"
  have dyn: "\<not> fixed_size ?c" by (simp add: mem_ctx_def)
  have wf: "length (bytes_at ?m (data ?c)) = unat (size' ?c)"
    by (simp add: mem_ctx_def mem_world_def)
  have buf: "unat (1 :: 64 word) \<le> length [99 :: 8 word]" by simp
  have pre: "unat (pos ?c) + unat (1 :: 64 word) < 2 ^ LENGTH(64) \<and>
      unat (size' ?c) < unat (pos ?c) + unat (1 :: 64 word)"
    by (simp add: mem_ctx_def)
  have ok: "realloc_next ?m \<noteq> nullptr" by (simp add: mem_world_def nullptr_def)
  from memory_write_cb_dynamic_growth [OF dyn wf buf] pre ok
  obtain m' where r: "memory_write_cb ?c [99] 1 ?m =
        ((FileStatus.OK,
          ?c\<lparr>data := realloc_next ?m, size' := pos ?c + 1, pos := pos ?c + 1\<rparr>, m', None),
         Some 1)"
      "bytes_at m' (realloc_next ?m) =
        take (unat (pos ?c))
          (bytes_at ?m (data ?c) @ replicate (unat (pos ?c) - unat (size' ?c)) 0) @
        take (unat (1 :: 64 word)) [99]"
      "data_ptr ?c \<noteq> nullptr \<longrightarrow> ptr_slots m' (data_ptr ?c) = realloc_next ?m"
      "size_ptr ?c \<noteq> nullptr \<longrightarrow> size_slots m' (size_ptr ?c) = pos ?c + 1"
    by blast
  have z: "replicate (2 :: nat) (0 :: 8 word) = [0, 0]" by (simp add: numeral_2_eq_2)
  have b: "bytes_at m' 2 = [97, 98, 0, 0, 99]"
    using r(2) by (simp add: mem_ctx_def mem_world_def z)
  have s: "size_slots m' 11 = 5" "ptr_slots m' 10 = 2"
    using r(3) r(4) by (simp_all add: mem_ctx_def mem_world_def nullptr_def)
  show ?thesis unfolding r(1) using dyn b s by (simp add: mem_ctx_def)
qed

subsection \<open>Seeking in a memory buffer\<close>

text \<open>Reading a 64-bit offset as unsigned, in terms of its signed value.\<close>

lemma uint_of_sint64:
  "uint (x :: 64 word) = (if 0 \<le> sint x then sint x else sint x + 2 ^ 64)"
proof -
  have b: "- (2 ^ 63) \<le> sint x" "sint x < 2 ^ 63"
    using sint_ge [of x] sint_lt [of x] by simp_all
  have "uint x = uint (word_of_int (sint x) :: 64 word)" by simp
  also have "\<dots> = sint x mod 2 ^ LENGTH(64)" by (simp only: uint_word_of_int)
  finally have m: "uint x = sint x mod 2 ^ 64" by simp
  show ?thesis
  proof (cases "0 \<le> sint x")
    case True
    with b have "sint x mod 2 ^ 64 = sint x" by (intro mod_pos_pos_trivial) simp_all
    with m True show ?thesis by simp
  next
    case False
    have "(sint x + 2 ^ 64) mod 2 ^ 64 = sint x + 2 ^ 64"
      using b False by (intro mod_pos_pos_trivial) simp_all
    then have "sint x mod 2 ^ 64 = sint x + 2 ^ 64" by simp
    with m False show ?thesis by simp
  qed
qed

lemma uint_neg_of_sint64:
  "sint (x :: 64 word) < 0 \<Longrightarrow> uint (- x) = - sint x"
proof -
  assume n: "sint x < 0"
  have b: "- (2 ^ 63) \<le> sint x" using sint_ge [of x] by simp
  have "- x = word_of_int (- sint x)" by simp
  then have "uint (- x) = uint (word_of_int (- sint x) :: 64 word)" by simp
  also have "\<dots> = (- sint x) mod 2 ^ 64" by (simp only: uint_word_of_int) simp
  also have "\<dots> = - sint x" using n b by (intro mod_pos_pos_trivial) simp_all
  finally show ?thesis .
qed

lemma unat_less_uint:
  "(unat (a :: 'a::len word) < unat (b :: 'b::len word)) = (uint a < uint b)"
  by (simp only: uint_nat of_nat_less_iff)

lemma uint_SIZE_MAX: "uint (SIZE_MAX :: 'a::len word) = 2 ^ LENGTH('a) - 1"
  using uint_SIZE_MAX_minus [of "0 :: 'a word"] by simp

lemma uint_wi_range:
  "0 \<le> t \<Longrightarrow> t < 2 ^ LENGTH('a) \<Longrightarrow> uint (word_of_int t :: 'a::len word) = t"
  by (simp add: uint_word_of_int)

lemma ucast_wi_up:
  assumes "LENGTH('a::len) \<le> 64" "0 \<le> t" "t < 2 ^ LENGTH('a)"
  shows "(ucast (word_of_int t :: 'a word) :: 64 word) = word_of_int t"
  using assms by (simp add: ucast_eq uint_wi_range)

lemma add_scast_wi:
  "(p :: 'a::len word) + scast (offset :: 64 word) = word_of_int (uint p + sint offset)"
proof -
  have "p + scast offset = word_of_int (uint p) + word_of_int (sint offset)"
    by (simp only: scast_eq word_of_int_uint)
  also have "\<dots> = word_of_int (uint p + sint offset)" by (simp only: wi_hom_add)
  finally show ?thesis .
qed

text \<open>
  With \<^verbatim>\<open>size_t\<close> of at most 64 bits, \<^verbatim>\<open>SEEK_SET\<close> and \<^verbatim>\<open>SEEK_CUR\<close> succeed exactly when
  the requested position lies in the range of \<^verbatim>\<open>size_t\<close>, and fail with INVALID_ARGUMENT
  and the position unchanged otherwise.
\<close>

lemma memory_seek_cb_SEEK_SET:
  fixes ctx :: "'a::len MemoryFileCtx"
  assumes w: "LENGTH('a) \<le> 64"
  shows "memory_seek_cb ctx offset SEEK_SET =
     (if 0 \<le> sint offset \<and> sint offset < 2 ^ LENGTH('a)
      then (FileStatus.OK, ctx\<lparr>pos := word_of_int (sint offset)\<rparr>, None,
            Some (word_of_int (sint offset)))
      else (FileStatus.FAILED, ctx,
            Some (FileError_INVALID_ARGUMENT, ''Invalid SEEK_SET offset''), None))"
proof (cases "0 \<le> sint offset")
  case True
  then have u: "uint offset = sint offset" by (simp add: uint_of_sint64)
  show ?thesis
  proof (cases "sint offset < 2 ^ LENGTH('a)")
    case True
    have "(ucast offset :: 'a word) = word_of_int (sint offset)" by (simp add: ucast_eq u)
    with True \<open>0 \<le> sint offset\<close> u ucast_wi_up [OF w \<open>0 \<le> sint offset\<close> True]
    show ?thesis
      by (simp add: memory_seek_cb_def unat_less_uint uint_SIZE_MAX Let_def)
  next
    case False
    with \<open>0 \<le> sint offset\<close> u show ?thesis
      by (simp add: memory_seek_cb_def unat_less_uint uint_SIZE_MAX)
  qed
next
  case False
  then show ?thesis by (simp add: memory_seek_cb_def)
qed

lemma memory_seek_cb_SEEK_CUR:
  fixes ctx :: "'a::len MemoryFileCtx"
  assumes w: "LENGTH('a) \<le> 64"
  shows "memory_seek_cb ctx offset SEEK_CUR =
     (if 0 \<le> uint (pos ctx) + sint offset \<and> uint (pos ctx) + sint offset < 2 ^ LENGTH('a)
      then (FileStatus.OK, ctx\<lparr>pos := word_of_int (uint (pos ctx) + sint offset)\<rparr>, None,
            Some (word_of_int (uint (pos ctx) + sint offset)))
      else (FileStatus.FAILED, ctx,
            Some (FileError_INVALID_ARGUMENT, ''Invalid SEEK_CUR offset''), None))"
proof -
  let ?t = "uint (pos ctx) + sint offset"
  have p: "0 \<le> uint (pos ctx)" "uint (pos ctx) < 2 ^ LENGTH('a)"
    by (simp_all add: uint_lt2p)
  have ne: "SEEK_CUR \<noteq> SEEK_SET" by (simp add: SEEK_CUR_def SEEK_SET_def)
  have g: "((sint offset < 0 \<and> unat (- offset) > unat (pos ctx)) \<or>
       (0 < sint offset \<and> unat offset > unat (SIZE_MAX - pos ctx))) =
     (\<not> (0 \<le> ?t \<and> ?t < 2 ^ LENGTH('a)))"
  proof (cases "sint offset < 0")
    case True
    then show ?thesis by (simp add: unat_less_uint uint_neg_of_sint64) (use p in linarith)
  next
    case False
    then have "uint offset = sint offset" by (simp add: uint_of_sint64)
    with False show ?thesis
      by (simp add: unat_less_uint uint_SIZE_MAX_minus) (use p in linarith)
  qed
  show ?thesis
  proof (cases "0 \<le> ?t \<and> ?t < 2 ^ LENGTH('a)")
    case True
    with g ucast_wi_up [OF w, of ?t] show ?thesis
      unfolding memory_seek_cb_def
      by (simp only: ne if_False if_True Let_def add_scast_wi simp_thms)
  next
    case False
    with g show ?thesis
      unfolding memory_seek_cb_def by (simp only: ne if_False if_True simp_thms)
  qed
qed

text \<open>
  \<^verbatim>\<open>SEEK_END\<close> does the same for offsets that are not negative, on every width: in
  particular a positive offset beyond \<^verbatim>\<open>SIZE_MAX - size\<close> fails with INVALID_ARGUMENT and
  the position unchanged. For negative offsets it does so when \<^verbatim>\<open>size_t\<close> has 64 bits.
\<close>

lemma memory_seek_cb_SEEK_END:
  fixes ctx :: "'a::len MemoryFileCtx"
  assumes w: "LENGTH('a) \<le> 64"
    and safe: "sint offset < 0 \<Longrightarrow> LENGTH('a) = 64"
  shows "memory_seek_cb ctx offset SEEK_END =
     (if 0 \<le> uint (size' ctx) + sint offset \<and> uint (size' ctx) + sint offset < 2 ^ LENGTH('a)
      then (FileStatus.OK, ctx\<lparr>pos := word_of_int (uint (size' ctx) + sint offset)\<rparr>, None,
            Some (word_of_int (uint (size' ctx) + sint offset)))
      else (FileStatus.FAILED, ctx,
            Some (FileError_INVALID_ARGUMENT, ''Invalid SEEK_END offset''), None))"
proof -
  let ?t = "uint (size' ctx) + sint offset"
  have p: "0 \<le> uint (size' ctx)" "uint (size' ctx) < 2 ^ LENGTH('a)"
    by (simp_all add: uint_lt2p)
  have ne: "SEEK_END \<noteq> SEEK_SET" "SEEK_END \<noteq> SEEK_CUR"
    by (simp_all add: SEEK_CUR_def SEEK_SET_def SEEK_END_def)
  have g: "((sint offset < 0 \<and> (ucast (- offset) :: 'a word) > size' ctx) \<or>
       (0 < sint offset \<and> unat offset > unat (SIZE_MAX - size' ctx))) =
     (\<not> (0 \<le> ?t \<and> ?t < 2 ^ LENGTH('a)))"
  proof (cases "sint offset < 0")
    case True
    from safe [OF True] have "is_up (ucast :: 64 word \<Rightarrow> 'a word)" by (simp add: is_up)
    then have "uint (ucast (- offset) :: 'a word) = uint (- offset)" by (rule uint_up_ucast)
    with True show ?thesis
      by (simp add: word_less_alt uint_neg_of_sint64) (use p in linarith)
  next
    case False
    then have "uint offset = sint offset" by (simp add: uint_of_sint64)
    with False show ?thesis
      by (simp add: unat_less_uint uint_SIZE_MAX_minus) (use p in linarith)
  qed
  show ?thesis
  proof (cases "0 \<le> ?t \<and> ?t < 2 ^ LENGTH('a)")
    case True
    with g ucast_wi_up [OF w, of ?t] show ?thesis
      unfolding memory_seek_cb_def
      by (simp only: ne if_False if_True Let_def add_scast_wi simp_thms)
  next
    case False
    with g show ?thesis
      unfolding memory_seek_cb_def by (simp only: ne if_False if_True simp_thms)
  qed
qed

text \<open>
  Claim C6 on a platform with a 32-bit \<^verbatim>\<open>size_t\<close>: a 5-byte buffer at position 0, and
  \<^verbatim>\<open>seek(-4294967296, SEEK_END)\<close>. The requested position -4294967291 underflows, yet the
  callback returns OK, sets no error and moves the position to 5: the test
  \<^verbatim>\<open>static_cast<size_t>(-offset) > ctx->size\<close> truncates the negated offset to 0, where the
  \<^verbatim>\<open>SEEK_CUR\<close> branch casts to \<^verbatim>\<open>uint64_t\<close> and rejects the same offset.
\<close>

theorem memory_seek_cb_SEEK_END_32bit_underflow:
  "sint (- 4294967296 :: 64 word) + uint (5 :: 32 word) = - 4294967291 \<and>
   memory_seek_cb
     (\<lparr>data = 1, size' = 5, data_ptr = 0, size_ptr = 0, pos = 0, fixed_size = False\<rparr>
        :: 32 MemoryFileCtx)
     (- 4294967296) SEEK_END =
   (FileStatus.OK,
    \<lparr>data = 1, size' = 5, data_ptr = 0, size_ptr = 0, pos = 5, fixed_size = False\<rparr>,
    None, Some 5) \<and>
   memory_seek_cb
     (\<lparr>data = 1, size' = 5, data_ptr = 0, size_ptr = 0, pos = 0, fixed_size = False\<rparr>
        :: 32 MemoryFileCtx)
     (- 4294967296) SEEK_CUR =
   (FileStatus.FAILED,
    \<lparr>data = 1, size' = 5, data_ptr = 0, size_ptr = 0, pos = 0, fixed_size = False\<rparr>,
    Some (FileError_INVALID_ARGUMENT, ''Invalid SEEK_CUR offset''), None)"
  by (simp add: memory_seek_cb_def SEEK_SET_def SEEK_CUR_def SEEK_END_def SIZE_MAX_def)

end
